theory Spec2Isabelle
  imports Complex_Main
begin

section \<open>Values of the host language\<close>

text \<open>
  The media graph is plain data: strings, numbers, booleans, optional fields and arrays.
  A string is a \<open>char list\<close>. A finite number is a rational (every finite double is
  one, and \<open><\<close>, \<open>\<le>\<close> on doubles are the comparisons of their values); NaN and the
  infinities are outside the model. An optional field \<open>f?: T\<close> is a \<open>T option\<close>,
  except an optional boolean, which the code only ever tests for truth: it is a
  \<open>bool\<close> with the absent field read as \<open>False\<close>.
\<close>

type_synonym number = rat

definition digit_char :: "nat \<Rightarrow> char" where
  "digit_char d = ''0123456789'' ! d"

fun nat_toString :: "nat \<Rightarrow> string" where
  "nat_toString n =
     (if n < 10 then [digit_char n] else nat_toString (n div 10) @ [digit_char (n mod 10)])"

declare nat_toString.simps [simp del]

definition int_toString :: "int \<Rightarrow> string" where
  "int_toString i =
     (if i < 0 then CHR ''-'' # nat_toString (nat (- i)) else nat_toString (nat i))"

text \<open>
  The digits after the decimal point of a fraction \<open>0 \<le> r < 1\<close>, by long division, at
  most \<open>k\<close> of them.
\<close>

fun frac_digits :: "nat \<Rightarrow> rat \<Rightarrow> string" where
  "frac_digits 0 r = []"
| "frac_digits (Suc k) r =
     (if r = 0 then []
      else digit_char (nat \<lfloor>r * 10\<rfloor>) # frac_digits k (r * 10 - of_int \<lfloor>r * 10\<rfloor>))"

text \<open>
  \<open>Number.prototype.toString\<close>, which a template literal \<open>`${n}`\<close> applies to a
  number. An integral value prints as its decimal digits with a leading minus sign when
  negative; the language does the same below \<open>10^21\<close> and switches to exponent form
  from there. Any other value prints as sign, integer part, point and the first digits of
  its decimal expansion, up to 17 of them; the language prints the shortest digits that
  read back as the same double, and exponent form below \<open>10^-6\<close>, so the two agree on
  short decimals such as \<open>0.5\<close> and differ elsewhere. The theorems below render only
  small integral values, or leave the number symbolic on both sides.
\<close>

definition number_toString :: "number \<Rightarrow> string" where
  "number_toString r =
     (if r = of_int \<lfloor>r\<rfloor> then int_toString \<lfloor>r\<rfloor>
      else (if r < 0 then ''-'' else '''') @ nat_toString (nat \<lfloor>\<bar>r\<bar>\<rfloor>) @ ''.''
           @ frac_digits 17 (\<bar>r\<bar> - of_int \<lfloor>\<bar>r\<bar>\<rfloor>))"

text \<open>\<open>Array.prototype.join\<close> on an array of strings.\<close>

fun join :: "string \<Rightarrow> string list \<Rightarrow> string" where
  "join sep [] = []"
| "join sep [x] = x"
| "join sep (x # y # ys) = x @ sep @ join sep (y # ys)"

section \<open>Filter descriptors\<close>

text \<open>\<open>Expr = number | string\<close> (src/utils/types.ts).\<close>

datatype Expr = ENum number | EStr string

text \<open>
  The union \<open>VideoFilter\<close> (src/ast/video-filters.ts); the arguments of each
  constructor are the fields of its interface, in the order of declaration:
  \<^item> \<open>Scale width? height? algorithm? forceOriginalAspectRatio?\<close>
  \<^item> \<open>Crop width height x? y?\<close>
  \<^item> \<open>Fps value round?\<close>
  \<^item> \<open>Trim start? end? duration?\<close>
  \<^item> \<open>Fade type startTime duration color?\<close>
  \<^item> \<open>Rotate angle outputWidth? outputHeight? fillColor?\<close>
  \<^item> \<open>Flip direction\<close>
  \<^item> \<open>Transpose direction\<close>
  \<^item> \<open>Overlay inputRef x y enableAlpha? shortest?\<close>
  \<^item> \<open>Pad width height x? y? color?\<close>
  \<^item> \<open>SetSar sar\<close>, \<open>SetDar dar\<close>
  \<^item> \<open>Format pixelFormats\<close>
\<close>

datatype VideoFilter =
    Scale "number option" "number option" "string option" "string option"
  | Crop Expr Expr "Expr option" "Expr option"
  | Fps number "string option"
  | Trim "number option" "number option" "number option"
  | Fade string number number "string option"
  | Rotate Expr "Expr option" "Expr option" "string option"
  | Flip string
  | Transpose number
  | Overlay string Expr Expr bool bool
  | Pad Expr Expr "Expr option" "Expr option" "string option"
  | SetSar Expr
  | SetDar Expr
  | Format "string list"

text \<open>
  The union \<open>AudioFilter\<close> (src/ast/audio-filters.ts):
  \<^item> \<open>Volume value precision?\<close>
  \<^item> \<open>Normalize type targetLoudness? loudnessRange? truePeak? frameLength? gaussSize?\<close>
  \<^item> \<open>AFade type startTime duration curve?\<close>
  \<^item> \<open>ATrim start? end? duration?\<close>
  \<^item> \<open>AResample sampleRate\<close>
  \<^item> \<open>ChannelMap map channelLayout?\<close>
  \<^item> \<open>ChannelMix layout\<close>
  \<^item> \<open>ADelay delays\<close>
  \<^item> \<open>Highpass frequency poles? width? widthType?\<close>, \<open>Lowpass\<close> likewise
  \<^item> \<open>Equalizer frequency width widthType? gain\<close>
\<close>

datatype AudioFilter =
    Volume Expr "string option"
  | Normalize string "number option" "number option" "number option" "number option"
      "number option"
  | AFade string number number "string option"
  | ATrim "number option" "number option" "number option"
  | AResample number
  | ChannelMap string "string option"
  | ChannelMix string
  | ADelay string
  | Highpass number "number option" "number option" "string option"
  | Lowpass number "number option" "number option" "string option"
  | Equalizer number number "string option" number

section \<open>Filter serializers (src/compiler/filter-serializers.ts)\<close>

fun serializeExpr :: "Expr \<Rightarrow> string" where
  "serializeExpr (ENum n) = number_toString n"
| "serializeExpr (EStr s) = s"

text \<open>
  \<open>escapeValue\<close>: three global replacements, one after the other: each backslash is
  doubled, then each colon gets a backslash in front, then each single quote becomes
  the four characters quote, backslash, quote, quote.
\<close>

fun replaceAll :: "char \<Rightarrow> string \<Rightarrow> string \<Rightarrow> string" where
  "replaceAll c r [] = []"
| "replaceAll c r (x # xs) = (if x = c then r @ replaceAll c r xs else x # replaceAll c r xs)"

definition escapeValue :: "string \<Rightarrow> string" where
  "escapeValue v =
     replaceAll CHR 0x27 [CHR 0x27, CHR 0x5C, CHR 0x27, CHR 0x27]
       (replaceAll CHR '':'' [CHR 0x5C, CHR '':'']
         (replaceAll (CHR 0x5C) [CHR 0x5C, CHR 0x5C] v))"

text \<open>
  An optional part \<open>key=value\<close> of a parameter list: \<open>optPart\<close> for a field tested
  with \<open>!== undefined\<close>, \<open>truthyPart\<close> for an optional string tested for truth
  (\<open>if (s)\<close>: present and not empty).
\<close>

fun optPart :: "string \<Rightarrow> ('a \<Rightarrow> string) \<Rightarrow> 'a option \<Rightarrow> string list" where
  "optPart k f None = []"
| "optPart k f (Some v) = [k @ f v]"

fun truthyPart :: "string \<Rightarrow> (string \<Rightarrow> string) \<Rightarrow> string option \<Rightarrow> string list" where
  "truthyPart k f None = []"
| "truthyPart k f (Some s) = (if s \<noteq> [] then [k @ f s] else [])"

fun serializeVideoFilter :: "VideoFilter \<Rightarrow> string" where
  "serializeVideoFilter (Scale width height algorithm forceOriginalAspectRatio) =
     (let w = (case width of None \<Rightarrow> - 2 | Some v \<Rightarrow> v);
          h = (case height of None \<Rightarrow> - 2 | Some v \<Rightarrow> v);
          effectiveW = (if w = - 1 then - 2 else w);
          effectiveH = (if h = - 1 then - 2 else h)
      in ''scale='' @ join '':''
           ([''w='' @ number_toString effectiveW, ''h='' @ number_toString effectiveH]
            @ truthyPart ''flags='' id algorithm
            @ truthyPart ''force_original_aspect_ratio='' id forceOriginalAspectRatio))"
| "serializeVideoFilter (Crop width height x y) =
     ''crop='' @ join '':''
       ([''w='' @ serializeExpr width, ''h='' @ serializeExpr height]
        @ optPart ''x='' serializeExpr x @ optPart ''y='' serializeExpr y)"
| "serializeVideoFilter (Fps v rounding) =
     ''fps='' @ number_toString v @ concat (truthyPart '':round='' id rounding)"
| "serializeVideoFilter (Trim start end' duration) =
     (let parts = optPart ''start='' number_toString start
                  @ optPart ''end='' number_toString end'
                  @ optPart ''duration='' number_toString duration
      in if length parts > 0 then ''trim='' @ join '':'' parts @ '',setpts=PTS-STARTPTS''
         else ''null'')"
| "serializeVideoFilter (Fade type startTime duration color) =
     ''fade='' @ join '':''
       ([''t='' @ type, ''st='' @ number_toString startTime, ''d='' @ number_toString duration]
        @ truthyPart ''c='' escapeValue color)"
| "serializeVideoFilter (Rotate angle outputWidth outputHeight fillColor) =
     ''rotate='' @ join '':''
       ([''a='' @ serializeExpr angle]
        @ optPart ''ow='' serializeExpr outputWidth
        @ optPart ''oh='' serializeExpr outputHeight
        @ truthyPart ''c='' escapeValue fillColor)"
| "serializeVideoFilter (Flip direction) =
     (if direction = ''horizontal'' then ''hflip'' else ''vflip'')"
| "serializeVideoFilter (Transpose direction) = ''transpose='' @ number_toString direction"
| "serializeVideoFilter (Overlay inputRef x y enableAlpha shortest) =
     ''overlay='' @ join '':''
       ([''x='' @ serializeExpr x, ''y='' @ serializeExpr y]
        @ (if enableAlpha then [''format=auto''] else [])
        @ (if shortest then [''shortest=1''] else []))"
| "serializeVideoFilter (Pad width height x y color) =
     ''pad='' @ join '':''
       ([''w='' @ serializeExpr width, ''h='' @ serializeExpr height]
        @ optPart ''x='' serializeExpr x @ optPart ''y='' serializeExpr y
        @ truthyPart ''color='' escapeValue color)"
| "serializeVideoFilter (SetSar sar) = ''setsar='' @ serializeExpr sar"
| "serializeVideoFilter (SetDar dar) = ''setdar='' @ serializeExpr dar"
| "serializeVideoFilter (Format pixelFormats) = ''format='' @ join ''|'' pixelFormats"


fun serializeAudioFilter :: "AudioFilter \<Rightarrow> string" where
  "serializeAudioFilter (Volume v precision) = ''volume='' @ serializeExpr v"
| "serializeAudioFilter (Normalize type targetLoudness loudnessRange truePeak frameLength
      gaussSize) =
     (if type = ''loudnorm'' then
        (let parts = optPart ''I='' number_toString targetLoudness
                     @ optPart ''LRA='' number_toString loudnessRange
                     @ optPart ''TP='' number_toString truePeak
         in if length parts > 0 then ''loudnorm='' @ join '':'' parts else ''loudnorm'')
      else
        (let parts = optPart ''f='' number_toString frameLength
                     @ optPart ''g='' number_toString gaussSize
         in if length parts > 0 then ''dynaudnorm='' @ join '':'' parts else ''dynaudnorm''))"
| "serializeAudioFilter (AFade type startTime duration curve) =
     ''afade='' @ join '':''
       ([''t='' @ type, ''st='' @ number_toString startTime, ''d='' @ number_toString duration]
        @ truthyPart ''curve='' id curve)"
| "serializeAudioFilter (ATrim start end' duration) =
     (let parts = optPart ''start='' number_toString start
                  @ optPart ''end='' number_toString end'
                  @ optPart ''duration='' number_toString duration
      in if length parts > 0 then ''atrim='' @ join '':'' parts @ '',asetpts=PTS-STARTPTS''
         else ''anull'')"
| "serializeAudioFilter (AResample sampleRate) = ''aresample='' @ number_toString sampleRate"
| "serializeAudioFilter (ChannelMap mapping channelLayout) =
     ''channelmap=map='' @ mapping @ concat (truthyPart '':channel_layout='' id channelLayout)"
| "serializeAudioFilter (ChannelMix layout) =
     ''aformat=channel_layouts='' @
       (case map_of [(''mono'', ''mono''), (''stereo'', ''stereo''), (''5.1'', ''5.1''),
                     (''7.1'', ''7.1'')] layout of
          Some l \<Rightarrow> l | None \<Rightarrow> layout)"
| "serializeAudioFilter (ADelay delays) = ''adelay='' @ delays"
| "serializeAudioFilter (Highpass frequency poles width widthType) =
     ''highpass=f='' @ number_toString frequency
       @ concat (optPart '':p='' number_toString poles)
       @ (case width of None \<Rightarrow> []
          | Some w \<Rightarrow> '':w='' @ number_toString w @ concat (truthyPart '':t='' id widthType))"
| "serializeAudioFilter (Lowpass frequency poles width widthType) =
     ''lowpass=f='' @ number_toString frequency
       @ concat (optPart '':p='' number_toString poles)
       @ (case width of None \<Rightarrow> []
          | Some w \<Rightarrow> '':w='' @ number_toString w @ concat (truthyPart '':t='' id widthType))"
| "serializeAudioFilter (Equalizer frequency width widthType gain) =
     ''equalizer=f='' @ number_toString frequency @ '':g='' @ number_toString gain
       @ '':w='' @ number_toString width @ concat (truthyPart '':t='' id widthType)"

definition serializeVideoFilterChain :: "VideoFilter list \<Rightarrow> string" where
  "serializeVideoFilterChain filters =
     (if length filters = 0 then [] else join '','' (map serializeVideoFilter filters))"

definition serializeAudioFilterChain :: "AudioFilter list \<Rightarrow> string" where
  "serializeAudioFilterChain filters =
     (if length filters = 0 then [] else join '','' (map serializeAudioFilter filters))"

section \<open>The graph model (src/ast/types.ts)\<close>

text \<open>
  A source or a destination is a path or a stream object; the code only asks which of the
  two it is. Record fields carry a prefix where the source's name is taken in HOL or is
  used by two interfaces.
\<close>

datatype InputSource = SourcePath string | SourceStream

datatype OutputDestination = DestPath string | DestStream

record InputOptions =
  in_format :: "string option"
  in_seekTo :: "number option"
  in_loop :: "number option"
  in_frameRate :: "number option"
  in_duration :: "number option"

record MediaInput =
  input_id :: string
  input_source :: InputSource
  input_options :: "InputOptions option"

record VideoStream =
  v_inputRef :: string
  v_streamIndex :: "number option"
  v_filters :: "VideoFilter list"
  v_disabled :: bool

record AudioStream =
  a_inputRef :: string
  a_streamIndex :: "number option"
  a_filters :: "AudioFilter list"
  a_disabled :: bool

text \<open>A value of \<open>Record<string, string | number | boolean>\<close>.\<close>

datatype OptionValue = OStr string | ONum number | OBool bool

text \<open>
  The codec option tables and the metadata table are association lists, in the order in
  which \<open>Object.entries\<close> yields their entries.
\<close>

record VideoCodecConfig =
  vc_codec :: string
  vc_bitrate :: "string option"
  vc_maxBitrate :: "string option"
  vc_bufferSize :: "string option"
  vc_crf :: "number option"
  vc_preset :: "string option"
  vc_profile :: "string option"
  vc_pixelFormat :: "string option"
  vc_pass :: "number option"
  vc_options :: "(string \<times> OptionValue) list option"

record AudioCodecConfig =
  ac_codec :: string
  ac_bitrate :: "string option"
  ac_sampleRate :: "number option"
  ac_channels :: "number option"
  ac_options :: "(string \<times> OptionValue) list option"

record OutputFlags =
  fl_fastStart :: bool
  fl_shortest :: bool
  fl_mapAll :: bool

record OutputConfig =
  destination :: OutputDestination
  out_format :: "string option"
  out_video :: "VideoCodecConfig option"
  out_audio :: "AudioCodecConfig option"
  out_metadata :: "(string \<times> string) list option"
  out_flags :: "OutputFlags option"

record GlobalOptions =
  threads :: "number option"
  overwrite :: bool
  logLevel :: "string option"
  hwAccel :: "string option"

record MediaGraph =
  inputs :: "MediaInput list"
  videoStreams :: "VideoStream list"
  audioStreams :: "AudioStream list"
  g_output :: OutputConfig
  g_options :: GlobalOptions

definition createMediaGraph :: MediaGraph where
  "createMediaGraph =
     \<lparr>inputs = [], videoStreams = [], audioStreams = [],
      g_output = \<lparr>destination = DestPath [], out_format = None, out_video = None,
                out_audio = None, out_metadata = None, out_flags = None\<rparr>,
      g_options = \<lparr>threads = None, overwrite = True, logLevel = None, hwAccel = None\<rparr>\<rparr>"

section \<open>Graph introspection (src/ast/graph.ts)\<close>

fun isOverlay :: "VideoFilter \<Rightarrow> bool" where
  "isOverlay (Overlay inputRef x y enableAlpha shortest) = True"
| "isOverlay _ = False"

text \<open>
  \<open>requiresComplexFilter\<close>: three tests in sequence, each returning \<open>true\<close> at once;
  the nested loops over streams and filters return at the first overlay.
\<close>

definition requiresComplexFilter :: "MediaGraph \<Rightarrow> bool" where
  "requiresComplexFilter graph =
     (if length (inputs graph) > 1 then True
      else if list_ex (\<lambda>stream. list_ex isOverlay (v_filters stream)) (videoStreams graph)
        then True
      else if length (videoStreams graph) > 1 \<or> length (audioStreams graph) > 1 then True
      else False)"

text \<open>
  A \<open>Set<string>\<close> that is iterated is a list without repetition in insertion order;
  \<open>add\<close> of a member changes nothing.
\<close>

definition set_add :: "string \<Rightarrow> string list \<Rightarrow> string list" where
  "set_add x refs = (if x \<in> set refs then refs else refs @ [x])"

fun addOverlayRefs :: "VideoFilter list \<Rightarrow> string list \<Rightarrow> string list" where
  "addOverlayRefs [] refs = refs"
| "addOverlayRefs (Overlay inputRef x y enableAlpha shortest # fs) refs =
     addOverlayRefs fs (set_add inputRef refs)"
| "addOverlayRefs (f # fs) refs = addOverlayRefs fs refs"

definition getReferencedInputs :: "MediaGraph \<Rightarrow> string list" where
  "getReferencedInputs graph =
     (let refs1 = fold (\<lambda>stream refs. addOverlayRefs (v_filters stream)
                                        (set_add (v_inputRef stream) refs))
                       (videoStreams graph) []
      in fold (\<lambda>stream refs. set_add (a_inputRef stream) refs) (audioStreams graph) refs1)"

definition getInputIds :: "MediaGraph \<Rightarrow> string set" where
  "getInputIds graph = set (map input_id (inputs graph))"

definition findInput :: "MediaGraph \<Rightarrow> string \<Rightarrow> MediaInput option" where
  "findInput graph ident = find (\<lambda>i. input_id i = ident) (inputs graph)"

text \<open>\<open>Array.prototype.findIndex\<close>: the first position that satisfies, or \<open>-1\<close>.\<close>

fun findIndexFrom :: "int \<Rightarrow> ('a \<Rightarrow> bool) \<Rightarrow> 'a list \<Rightarrow> int" where
  "findIndexFrom k P [] = - 1"
| "findIndexFrom k P (x # xs) = (if P x then k else findIndexFrom (k + 1) P xs)"

definition getInputIndex :: "MediaGraph \<Rightarrow> string \<Rightarrow> int" where
  "getInputIndex graph ident = findIndexFrom 0 (\<lambda>i. input_id i = ident) (inputs graph)"

definition hasVideoProcessing :: "MediaGraph \<Rightarrow> bool" where
  "hasVideoProcessing graph =
     list_ex (\<lambda>s. \<not> v_disabled s \<and> length (v_filters s) > 0) (videoStreams graph)"

definition hasAudioProcessing :: "MediaGraph \<Rightarrow> bool" where
  "hasAudioProcessing graph =
     list_ex (\<lambda>s. \<not> a_disabled s \<and> length (a_filters s) > 0) (audioStreams graph)"

definition hasVideoOutput :: "MediaGraph \<Rightarrow> bool" where
  "hasVideoOutput graph = list_ex (\<lambda>s. \<not> v_disabled s) (videoStreams graph)"

definition hasAudioOutput :: "MediaGraph \<Rightarrow> bool" where
  "hasAudioOutput graph = list_ex (\<lambda>s. \<not> a_disabled s) (audioStreams graph)"

section \<open>Validation (src/ast/validation.ts)\<close>

text \<open>
  \<open>ValidationError\<close> (src/errors): the constructor puts the field, when there is one,
  in front of the message.
\<close>

record ValidationError =
  ve_message :: string
  ve_field :: "string option"

definition dq :: string where
  "dq = [CHR 0x22]"

definition newValidationError :: "string \<Rightarrow> string option \<Rightarrow> ValidationError" where
  "newValidationError msg fld =
     \<lparr>ve_message = (case fld of
                       None \<Rightarrow> msg
                     | Some f \<Rightarrow> if f \<noteq> [] then ''Validation error in '' @ dq @ f @ dq @ '': '' @ msg
                                else msg),
      ve_field = fld\<rparr>"

record ValidationResult =
  valid :: bool
  errors :: "ValidationError list"
  warnings :: "string list"

text \<open>An error pushed under a condition.\<close>

definition errIf :: "bool \<Rightarrow> string \<Rightarrow> string option \<Rightarrow> ValidationError list" where
  "errIf c msg fld = (if c then [newValidationError msg fld] else [])"

fun validateVideoFilter :: "VideoFilter \<Rightarrow> string set \<Rightarrow> ValidationError list" where
  "validateVideoFilter (Scale width height algorithm forceOriginalAspectRatio) inputIds =
     errIf (case width of None \<Rightarrow> False
            | Some w \<Rightarrow> w \<noteq> - 1 \<and> w \<noteq> - 2 \<and> w \<le> 0)
       ''Width must be positive or -1/-2 for auto'' (Some ''scale.width'')
     @ errIf (case height of None \<Rightarrow> False
              | Some h \<Rightarrow> h \<noteq> - 1 \<and> h \<noteq> - 2 \<and> h \<le> 0)
       ''Height must be positive or -1/-2 for auto'' (Some ''scale.height'')"
| "validateVideoFilter (Fps v rounding) inputIds =
     errIf (v \<le> 0 \<or> v > 240) ''FPS must be between 1 and 240'' (Some ''fps.value'')"
| "validateVideoFilter (Trim start end' duration) inputIds =
     errIf (case start of None \<Rightarrow> False | Some s \<Rightarrow> s < 0)
       ''Start time cannot be negative'' (Some ''trim.start'')
     @ errIf (case end' of None \<Rightarrow> False | Some e \<Rightarrow> e < 0)
       ''End time cannot be negative'' (Some ''trim.end'')
     @ errIf (case (start, end') of (Some s, Some e) \<Rightarrow> s \<ge> e | _ \<Rightarrow> False)
       ''Start time must be before end time'' (Some ''trim'')
     @ errIf (case duration of None \<Rightarrow> False | Some d \<Rightarrow> d \<le> 0)
       ''Duration must be positive'' (Some ''trim.duration'')"
| "validateVideoFilter (Fade type startTime duration color) inputIds =
     errIf (startTime < 0) ''Fade start time cannot be negative'' (Some ''fade.startTime'')
     @ errIf (duration \<le> 0) ''Fade duration must be positive'' (Some ''fade.duration'')"
| "validateVideoFilter (Overlay inputRef x y enableAlpha shortest) inputIds =
     errIf (inputRef \<notin> inputIds)
       (''Overlay references non-existent input '' @ dq @ inputRef @ dq)
       (Some ''overlay.inputRef'')"
| "validateVideoFilter _ inputIds = []"

fun validateAudioFilter :: "AudioFilter \<Rightarrow> ValidationError list" where
  "validateAudioFilter (Volume v precision) =
     errIf (case v of ENum n \<Rightarrow> n < 0 | EStr s \<Rightarrow> False)
       ''Volume cannot be negative'' (Some ''volume.value'')"
| "validateAudioFilter (ATrim start end' duration) =
     errIf (case start of None \<Rightarrow> False | Some s \<Rightarrow> s < 0)
       ''Start time cannot be negative'' (Some ''atrim.start'')
     @ errIf (case end' of None \<Rightarrow> False | Some e \<Rightarrow> e < 0)
       ''End time cannot be negative'' (Some ''atrim.end'')
     @ errIf (case (start, end') of (Some s, Some e) \<Rightarrow> s \<ge> e | _ \<Rightarrow> False)
       ''Start time must be before end time'' (Some ''atrim'')"
| "validateAudioFilter (AFade type startTime duration curve) =
     errIf (startTime < 0) ''Fade start time cannot be negative'' (Some ''afade.startTime'')
     @ errIf (duration \<le> 0) ''Fade duration must be positive'' (Some ''afade.duration'')"
| "validateAudioFilter (AResample sampleRate) =
     errIf (sampleRate \<le> 0) ''Sample rate must be positive'' (Some ''aresample.sampleRate'')
     @ errIf (sampleRate < 8000 \<or> sampleRate > 192000)
       ''Sample rate should be between 8000 and 192000 Hz'' (Some ''aresample.sampleRate'')"
| "validateAudioFilter (Highpass frequency poles width widthType) =
     errIf (frequency \<le> 0) ''Frequency must be positive'' (Some ''highpass.frequency'')"
| "validateAudioFilter (Lowpass frequency poles width widthType) =
     errIf (frequency \<le> 0) ''Frequency must be positive'' (Some ''lowpass.frequency'')"
| "validateAudioFilter (Equalizer frequency width widthType gain) =
     errIf (frequency \<le> 0) ''Frequency must be positive'' (Some ''equalizer.frequency'')
     @ errIf (width \<le> 0) ''Width must be positive'' (Some ''equalizer.width'')"
| "validateAudioFilter _ = []"

text \<open>The loops over the streams, with the running index \<open>i\<close>.\<close>

fun validateVideoStreams :: "nat \<Rightarrow> VideoStream list \<Rightarrow> string set \<Rightarrow> ValidationError list"
  where
  "validateVideoStreams i [] inputIds = []"
| "validateVideoStreams i (stream # rest) inputIds =
     errIf (v_inputRef stream \<notin> inputIds)
       (''Video stream '' @ nat_toString i @ '' references non-existent input '' @ dq
        @ v_inputRef stream @ dq) None
     @ concat (map (\<lambda>f. validateVideoFilter f inputIds) (v_filters stream))
     @ validateVideoStreams (i + 1) rest inputIds"

fun validateAudioStreams :: "nat \<Rightarrow> AudioStream list \<Rightarrow> string set \<Rightarrow> ValidationError list"
  where
  "validateAudioStreams i [] inputIds = []"
| "validateAudioStreams i (stream # rest) inputIds =
     errIf (a_inputRef stream \<notin> inputIds)
       (''Audio stream '' @ nat_toString i @ '' references non-existent input '' @ dq
        @ a_inputRef stream @ dq) None
     @ concat (map validateAudioFilter (a_filters stream))
     @ validateAudioStreams (i + 1) rest inputIds"

text \<open>
  \<open>validateGraph\<close> pushes onto one array in this order; nothing returns early. The
  destination is missing when it is the empty path (\<open>!destination\<close>).
\<close>

definition validateGraph :: "MediaGraph \<Rightarrow> ValidationResult" where
  "validateGraph graph =
     (let inputIds = getInputIds graph;
          referencedInputs = getReferencedInputs graph;
          errs =
            errIf (length (inputs graph) = 0) ''At least one input is required'' None
            @ errIf (destination (g_output graph) = DestPath [])
                ''Output destination is required'' None
            @ concat (map (\<lambda>r. errIf (r \<notin> inputIds)
                                  (''Referenced input '' @ dq @ r @ dq @ '' does not exist'')
                                  None)
                          referencedInputs)
            @ validateVideoStreams 0 (videoStreams graph) inputIds
            @ validateAudioStreams 0 (audioStreams graph) inputIds
            @ (case out_video (g_output graph) of
                 None \<Rightarrow> []
               | Some v \<Rightarrow>
                   (case vc_crf v of
                      None \<Rightarrow> []
                    | Some crf \<Rightarrow>
                        errIf (crf < 0 \<or> crf > 63) ''CRF must be between 0 and 63''
                          (Some ''crf'')));
          warns =
            (if length (videoStreams graph) = 0 \<and> length (audioStreams graph) = 0
             then [''No video or audio streams configured - output may be empty'']
             else [])
      in \<lparr>valid = (length errs = 0), errors = errs, warnings = warns\<rparr>)"

text \<open>
  \<open>assertValid\<close> returns nothing or throws \<open>result.errors[0]\<close>, which is the first
  error, or \<open>undefined\<close> on an empty array.
\<close>

datatype thrown = Thrown ValidationError | ThrownUndefined

definition assertValid :: "MediaGraph \<Rightarrow> thrown + unit" where
  "assertValid graph =
     (let result = validateGraph graph
      in if \<not> valid result
         then (case errors result of [] \<Rightarrow> Inl ThrownUndefined | e # _ \<Rightarrow> Inl (Thrown e))
         else Inr ())"

section \<open>The compilers (src/compiler)\<close>

record CompilationResult =
  args :: "string list"

text \<open>
  Both compilers push onto one array \<open>args\<close>. Each definition below is one block of
  pushes and returns what the block appends. The blocks for the global options, the
  inputs, the codecs, the metadata, the flags, the format and the destination are written
  twice in the source, the same in \<open>compileSimple\<close> and in \<open>compileComplex\<close>.
\<close>

fun flagStr :: "string \<Rightarrow> string option \<Rightarrow> string list" where
  "flagStr flag None = []"
| "flagStr flag (Some v) = (if v \<noteq> [] then [flag, v] else [])"

fun flagNum :: "string \<Rightarrow> number option \<Rightarrow> string list" where
  "flagNum flag None = []"
| "flagNum flag (Some n) = [flag, number_toString n]"

text \<open>A number tested for truth (\<open>if (a.sampleRate)\<close>): present and not zero.\<close>

fun flagNumTruthy :: "string \<Rightarrow> number option \<Rightarrow> string list" where
  "flagNumTruthy flag None = []"
| "flagNumTruthy flag (Some n) = (if n \<noteq> 0 then [flag, number_toString n] else [])"

definition globalArgs :: "MediaGraph \<Rightarrow> string list" where
  "globalArgs graph =
     (if overwrite (g_options graph) then [''-y''] else [])
     @ flagStr ''-loglevel'' (logLevel (g_options graph))
     @ flagNum ''-threads'' (threads (g_options graph))
     @ flagStr ''-hwaccel'' (hwAccel (g_options graph))"

definition inputArgs :: "MediaInput \<Rightarrow> string list" where
  "inputArgs input =
     (case input_options input of
        None \<Rightarrow> []
      | Some opts \<Rightarrow>
          flagNum ''-ss'' (in_seekTo opts)
          @ flagNum ''-t'' (in_duration opts)
          @ flagStr ''-f'' (in_format opts)
          @ flagNum ''-r'' (in_frameRate opts)
          @ flagNum ''-stream_loop'' (in_loop opts))
     @ (case input_source input of
          SourcePath path \<Rightarrow> [''-i'', path]
        | SourceStream \<Rightarrow> [''-i'', ''pipe:0''])"

definition inputsArgs :: "MediaGraph \<Rightarrow> string list" where
  "inputsArgs graph = concat (map inputArgs (inputs graph))"

fun optionArgs :: "string \<times> OptionValue \<Rightarrow> string list" where
  "optionArgs (key, OBool b) = (if b then [''-'' @ key] else [])"
| "optionArgs (key, OStr v) = [''-'' @ key, v]"
| "optionArgs (key, ONum n) = [''-'' @ key, number_toString n]"

definition videoCodecMap :: "(string \<times> string) list" where
  "videoCodecMap =
     [(''h264'', ''libx264''), (''h265'', ''libx265''), (''hevc'', ''libx265''),
      (''vp9'', ''libvpx-vp9''), (''vp8'', ''libvpx''), (''av1'', ''libaom-av1''),
      (''mpeg4'', ''mpeg4''), (''prores'', ''prores_ks'')]"

definition audioCodecMap :: "(string \<times> string) list" where
  "audioCodecMap =
     [(''aac'', ''aac''), (''mp3'', ''libmp3lame''), (''opus'', ''libopus''),
      (''vorbis'', ''libvorbis''), (''flac'', ''flac''), (''ac3'', ''ac3''),
      (''pcm_s16le'', ''pcm_s16le'')]"

text \<open>\<open>table[codec] ?? codec\<close>.\<close>

definition encoderName :: "(string \<times> string) list \<Rightarrow> string \<Rightarrow> string" where
  "encoderName table codec = (case map_of table codec of Some e \<Rightarrow> e | None \<Rightarrow> codec)"

definition videoCodecArgs :: "bool \<Rightarrow> MediaGraph \<Rightarrow> string list" where
  "videoCodecArgs hasVideo graph =
     (case out_video (g_output graph) of
        Some v \<Rightarrow>
          if vc_codec v = ''copy'' then [''-c:v'', ''copy'']
          else [''-c:v'', encoderName videoCodecMap (vc_codec v)]
               @ flagStr ''-b:v'' (vc_bitrate v)
               @ flagStr ''-maxrate'' (vc_maxBitrate v)
               @ flagStr ''-bufsize'' (vc_bufferSize v)
               @ flagNum ''-crf'' (vc_crf v)
               @ flagStr ''-preset'' (vc_preset v)
               @ flagStr ''-profile:v'' (vc_profile v)
               @ flagStr ''-pix_fmt'' (vc_pixelFormat v)
               @ (case vc_options v of None \<Rightarrow> [] | Some os \<Rightarrow> concat (map optionArgs os))
      | None \<Rightarrow> if \<not> hasVideo then [''-vn''] else [])"

definition audioCodecArgs :: "bool \<Rightarrow> MediaGraph \<Rightarrow> string list" where
  "audioCodecArgs hasAudio graph =
     (case out_audio (g_output graph) of
        Some a \<Rightarrow>
          if ac_codec a = ''copy'' then [''-c:a'', ''copy'']
          else [''-c:a'', encoderName audioCodecMap (ac_codec a)]
               @ flagStr ''-b:a'' (ac_bitrate a)
               @ flagNumTruthy ''-ar'' (ac_sampleRate a)
               @ flagNumTruthy ''-ac'' (ac_channels a)
               @ (case ac_options a of None \<Rightarrow> [] | Some os \<Rightarrow> concat (map optionArgs os))
      | None \<Rightarrow> if \<not> hasAudio then [''-an''] else [])"

definition metadataArgs :: "MediaGraph \<Rightarrow> string list" where
  "metadataArgs graph =
     (case out_metadata (g_output graph) of
        None \<Rightarrow> []
      | Some md \<Rightarrow> concat (map (\<lambda>(key, v). [''-metadata'', key @ ''='' @ v]) md))"

definition outputFlagArgs :: "MediaGraph \<Rightarrow> string list" where
  "outputFlagArgs graph =
     (case out_flags (g_output graph) of
        None \<Rightarrow> []
      | Some fl \<Rightarrow>
          (if fl_fastStart fl then [''-movflags'', ''+faststart''] else [])
          @ (if fl_shortest fl then [''-shortest''] else []))"

definition formatArgs :: "MediaGraph \<Rightarrow> string list" where
  "formatArgs graph = flagStr ''-f'' (out_format (g_output graph))"

definition destinationArgs :: "MediaGraph \<Rightarrow> string list" where
  "destinationArgs graph =
     (case destination (g_output graph) of
        DestPath path \<Rightarrow> [path]
      | DestStream \<Rightarrow> [''pipe:1''])"

text \<open>What follows the filters in both compilers.\<close>

definition outputArgs :: "bool \<Rightarrow> bool \<Rightarrow> MediaGraph \<Rightarrow> string list" where
  "outputArgs hasVideo hasAudio graph =
     videoCodecArgs hasVideo graph @ audioCodecArgs hasAudio graph @ metadataArgs graph
     @ outputFlagArgs graph @ formatArgs graph @ destinationArgs graph"

subsection \<open>The simple compiler\<close>

definition simpleVideoFilterArgs :: "MediaGraph \<Rightarrow> string list" where
  "simpleVideoFilterArgs graph =
     (if hasVideoOutput graph then
        (case find (\<lambda>s. \<not> v_disabled s) (videoStreams graph) of
           None \<Rightarrow> []
         | Some videoStream \<Rightarrow>
             if length (v_filters videoStream) > 0 then
               (let vf = serializeVideoFilterChain (v_filters videoStream)
                in if vf \<noteq> [] then [''-vf'', vf] else [])
             else [])
      else [])"

definition simpleAudioFilterArgs :: "MediaGraph \<Rightarrow> string list" where
  "simpleAudioFilterArgs graph =
     (if hasAudioOutput graph then
        (case find (\<lambda>s. \<not> a_disabled s) (audioStreams graph) of
           None \<Rightarrow> []
         | Some audioStream \<Rightarrow>
             if length (a_filters audioStream) > 0 then
               (let af = serializeAudioFilterChain (a_filters audioStream)
                in if af \<noteq> [] then [''-af'', af] else [])
             else [])
      else [])"

definition compileSimple :: "MediaGraph \<Rightarrow> CompilationResult" where
  "compileSimple graph =
     \<lparr>args = globalArgs graph @ inputsArgs graph
             @ simpleVideoFilterArgs graph @ simpleAudioFilterArgs graph
             @ outputArgs (hasVideoOutput graph) (hasAudioOutput graph) graph\<rparr>"

subsection \<open>The complex compiler\<close>

text \<open>A filter-graph segment \<open>[in]expr[out]\<close>, and a pad address \<open>index:v\<close>.\<close>

definition segment :: "string \<Rightarrow> string \<Rightarrow> string \<Rightarrow> string" where
  "segment inLabel expr outLabel = ''['' @ inLabel @ '']'' @ expr @ ''['' @ outLabel @ '']''"

definition syntheticLabel :: "nat \<Rightarrow> string" where
  "syntheticLabel n = ''v_'' @ nat_toString n"

text \<open>
  The loop over the filters of the selected video stream. Its state is the array
  \<open>filterParts\<close>, the label \<open>currentLabel\<close> and the pending batch \<open>normalFilters\<close>.
  An overlay first flushes a pending batch as one segment, then adds its own segment with
  two input pads; any other filter joins the batch.
\<close>

fun videoLoop ::
  "MediaGraph \<Rightarrow> VideoFilter list \<Rightarrow> string list \<times> string \<times> VideoFilter list
   \<Rightarrow> string list \<times> string \<times> VideoFilter list" where
  "videoLoop graph [] st = st"
| "videoLoop graph (Overlay inputRef x y enableAlpha shortest # rest)
     (filterParts, currentLabel, normalFilters) =
     (let (filterParts1, currentLabel1) =
            (if length normalFilters > 0 then
               (let filterChain = join '','' (map serializeVideoFilter normalFilters);
                    nextLabel = syntheticLabel (length filterParts)
                in (filterParts @ [segment currentLabel filterChain nextLabel], nextLabel))
             else (filterParts, currentLabel));
          overlayInputIndex = getInputIndex graph inputRef;
          overlayLabel = int_toString overlayInputIndex @ '':v'';
          nextLabel = syntheticLabel (length filterParts1);
          overlayFilter = serializeVideoFilter (Overlay inputRef x y enableAlpha shortest)
      in videoLoop graph rest
           (filterParts1
              @ [''['' @ currentLabel1 @ ''][''  @ overlayLabel @ '']'' @ overlayFilter
                 @ ''['' @ nextLabel @ '']''],
            nextLabel, []))"
| "videoLoop graph (f # rest) (filterParts, currentLabel, normalFilters) =
     videoLoop graph rest (filterParts, currentLabel, normalFilters @ [f])"

text \<open>
  \<open>lastPart.replace(/\[[^\]]+\]$/, "[v_out]")\<close>: the leftmost position from which an
  opening bracket, one or more characters other than a closing bracket, and a closing
  bracket reach the end of the string; from there on the string is replaced. Without such
  a position the string stays as it is.
\<close>

fun matchesFinalLabel :: "string \<Rightarrow> bool" where
  "matchesFinalLabel [] = False"
| "matchesFinalLabel (c # rest) =
     (c = CHR ''['' \<and> rest \<noteq> [] \<and> last rest = CHR '']'' \<and> butlast rest \<noteq> []
      \<and> CHR '']'' \<notin> set (butlast rest))"

fun replaceFinalLabel :: "string \<Rightarrow> string" where
  "replaceFinalLabel [] = []"
| "replaceFinalLabel (c # rest) =
     (if matchesFinalLabel (c # rest) then ''[v_out]'' else c # replaceFinalLabel rest)"

text \<open>
  The video part of \<open>compileComplex\<close>: the segments and \<open>outputVideoLabel\<close>
  (empty when no stream is selected).
\<close>

definition complexVideo :: "MediaGraph \<Rightarrow> string list \<times> string" where
  "complexVideo graph =
     (if hasVideoOutput graph then
        (case find (\<lambda>s. \<not> v_disabled s) (videoStreams graph) of
           None \<Rightarrow> ([], [])
         | Some videoStream \<Rightarrow>
             (let inputIndex = getInputIndex graph (v_inputRef videoStream);
                  (filterParts, currentLabel, normalFilters) =
                     videoLoop graph (v_filters videoStream)
                       ([], int_toString inputIndex @ '':v'', [])
              in if length normalFilters > 0 then
                   (filterParts
                      @ [segment currentLabel
                           (join '','' (map serializeVideoFilter normalFilters)) ''v_out''],
                    ''v_out'')
                 else if length filterParts > 0 then
                   (butlast filterParts @ [replaceFinalLabel (last filterParts)], ''v_out'')
                 else (filterParts, currentLabel)))
      else ([], []))"

text \<open>
  The audio part: the segment it appends to \<open>filterParts\<close> (none or one) and
  \<open>outputAudioLabel\<close>.
\<close>

definition complexAudio :: "MediaGraph \<Rightarrow> string list \<times> string" where
  "complexAudio graph =
     (if hasAudioOutput graph then
        (case find (\<lambda>s. \<not> a_disabled s) (audioStreams graph) of
           None \<Rightarrow> ([], [])
         | Some audioStream \<Rightarrow>
             (let inputIndex = getInputIndex graph (a_inputRef audioStream)
              in if length (a_filters audioStream) > 0 then
                   ([segment (int_toString inputIndex @ '':a'')
                       (join '','' (map serializeAudioFilter (a_filters audioStream)))
                       ''a_out''],
                    ''a_out'')
                 else ([], int_toString inputIndex @ '':a'')))
      else ([], []))"

text \<open>A \<open>-map\<close> directive: a synthetic label goes in brackets, a pad address does not.\<close>

definition mapArgs :: "bool \<Rightarrow> string list \<Rightarrow> string \<Rightarrow> string list" where
  "mapArgs present filterParts label =
     (if present \<and> label \<noteq> [] then
        (if length filterParts > 0 \<and> CHR ''_'' \<in> set label
         then [''-map'', ''['' @ label @ '']'']
         else [''-map'', label])
      else [])"

definition compileComplex :: "MediaGraph \<Rightarrow> CompilationResult" where
  "compileComplex graph =
     (let hasVideo = hasVideoOutput graph;
          (videoParts, outputVideoLabel) = complexVideo graph;
          hasAudio = hasAudioOutput graph;
          (audioParts, outputAudioLabel) = complexAudio graph;
          filterParts = videoParts @ audioParts
      in \<lparr>args = globalArgs graph @ inputsArgs graph
                 @ (if length filterParts > 0
                    then [''-filter_complex'', join '';'' filterParts] else [])
                 @ mapArgs hasVideo filterParts outputVideoLabel
                 @ mapArgs hasAudio filterParts outputAudioLabel
                 @ outputArgs hasVideo hasAudio graph\<rparr>)"

subsection \<open>The entry point (src/compiler/index.ts)\<close>

definition compile :: "MediaGraph \<Rightarrow> CompilationResult" where
  "compile graph =
     (if requiresComplexFilter graph then compileComplex graph else compileSimple graph)"

section \<open>The unescaping of the specification\<close>

text \<open>
  Modelled from the spec: the unescaping that undoes \<open>escapeValue\<close>, which the
  repository does not implement. The specification describes it as removing the backslash
  escapes: a backslash is dropped and the character after it is kept as it stands; every
  other character is kept.
\<close>

fun spec_unescape :: "string \<Rightarrow> string" where
  "spec_unescape [] = []"
| "spec_unescape [c] = [c]"
| "spec_unescape (c # d # rest) =
     (if c = CHR 0x5C then d # spec_unescape rest else c # spec_unescape (d # rest))"

section \<open>Example graphs\<close>

definition fileInput :: "string \<Rightarrow> string \<Rightarrow> MediaInput" where
  "fileInput ident path =
     \<lparr>input_id = ident, input_source = SourcePath path, input_options = None\<rparr>"

definition videoStreamOf :: "string \<Rightarrow> VideoFilter list \<Rightarrow> VideoStream" where
  "videoStreamOf ref fs =
     \<lparr>v_inputRef = ref, v_streamIndex = None, v_filters = fs, v_disabled = False\<rparr>"

definition audioStreamOf :: "string \<Rightarrow> AudioFilter list \<Rightarrow> AudioStream" where
  "audioStreamOf ref fs =
     \<lparr>a_inputRef = ref, a_streamIndex = None, a_filters = fs, a_disabled = False\<rparr>"

text \<open>The empty graph of \<open>createMediaGraph\<close> with inputs, streams and a destination.\<close>

definition graphOf ::
  "MediaInput list \<Rightarrow> VideoStream list \<Rightarrow> AudioStream list \<Rightarrow> MediaGraph" where
  "graphOf ins vs as =
     createMediaGraph\<lparr>inputs := ins, videoStreams := vs, audioStreams := as,
       g_output := (g_output createMediaGraph)\<lparr>destination := DestPath ''output.mp4''\<rparr>\<rparr>"

definition simpleGraph :: MediaGraph where
  "simpleGraph =
     graphOf [fileInput ''input_0'' ''input.mp4'']
       [videoStreamOf ''input_0'' [Fps 30 None]] [audioStreamOf ''input_0'' []]"

definition twoInputGraph :: MediaGraph where
  "twoInputGraph =
     graphOf [fileInput ''input_0'' ''a.mp4'', fileInput ''input_1'' ''b.mp4'']
       [videoStreamOf ''input_0'' []] []"

definition slowFpsGraph :: MediaGraph where
  "slowFpsGraph =
     graphOf [fileInput ''input_0'' ''input.mp4'']
       [videoStreamOf ''input_0'' [Fps (1 / 2) None]] []"

definition aacConfig :: AudioCodecConfig where
  "aacConfig =
     \<lparr>ac_codec = ''aac'', ac_bitrate = None, ac_sampleRate = None, ac_channels = None,
      ac_options = None\<rparr>"

definition mutedWithCodecGraph :: MediaGraph where
  "mutedWithCodecGraph =
     (let g = graphOf [fileInput ''input_0'' ''input.mp4'']
                [(videoStreamOf ''input_0'' [])\<lparr>v_disabled := True\<rparr>]
                [(audioStreamOf ''input_0'' [])\<lparr>a_disabled := True\<rparr>]
      in g\<lparr>g_output := (g_output g)\<lparr>out_audio := Some aacConfig\<rparr>\<rparr>)"

definition overlayAt10 :: "string \<Rightarrow> VideoFilter" where
  "overlayAt10 ref = Overlay ref (ENum 10) (ENum 10) False False"

definition overlayGraph :: MediaGraph where
  "overlayGraph =
     graphOf [fileInput ''input_0'' ''a.mp4'', fileInput ''input_1'' ''b.mp4'']
       [videoStreamOf ''input_0'' [overlayAt10 ''input_1'']] []"

definition overlayWithAudioGraph :: MediaGraph where
  "overlayWithAudioGraph =
     graphOf [fileInput ''input_0'' ''a.mp4'', fileInput ''input_1'' ''b.mp4'']
       [videoStreamOf ''input_0'' [overlayAt10 ''input_1'']]
       [audioStreamOf ''input_0'' [Volume (ENum 2) None]]"

definition danglingStreamGraph :: MediaGraph where
  "danglingStreamGraph =
     graphOf [fileInput ''input_0'' ''a.mp4'', fileInput ''input_1'' ''b.mp4'']
       [videoStreamOf ''missing'' []] []"

definition danglingFilteredGraph :: MediaGraph where
  "danglingFilteredGraph =
     graphOf [fileInput ''input_0'' ''a.mp4'', fileInput ''input_1'' ''b.mp4'']
       [videoStreamOf ''missing'' [Fps 30 None, overlayAt10 ''gone'']] []"

definition brokenGraph :: MediaGraph where
  "brokenGraph =
     createMediaGraph\<lparr>inputs := [fileInput ''input_0'' ''input.mp4''],
       videoStreams := [videoStreamOf ''nope'' [Fps 500 None]],
       audioStreams := [audioStreamOf ''input_0'' [AResample 100]]\<rparr>"

section \<open>Notions for the proofs about the video loop\<close>

text \<open>One iteration of the loop on an overlay.\<close>

definition overlayStep ::
  "MediaGraph \<Rightarrow> VideoFilter \<Rightarrow> string \<Rightarrow> string list \<times> string \<times> VideoFilter list
   \<Rightarrow> string list \<times> string \<times> VideoFilter list" where
  "overlayStep g f ref st =
     (case st of (ps, c, n) \<Rightarrow>
        (let ps1 = (if n \<noteq> [] then ps @ [segment c (join '','' (map serializeVideoFilter n))
                                              (syntheticLabel (length ps))]
                    else ps);
             c1 = (if n \<noteq> [] then syntheticLabel (length ps) else c)
         in (ps1 @ [''['' @ c1 @ ''][''  @ int_toString (getInputIndex g ref) @ '':v]''
                    @ serializeVideoFilter f @ ''['' @ syntheticLabel (length ps1) @ '']''],
             syntheticLabel (length ps1), [])))"

text \<open>The first segment starts with the label the loop started from.\<close>

definition startsFrom :: "string \<Rightarrow> string list \<times> string \<times> VideoFilter list \<Rightarrow> bool" where
  "startsFrom c0 st =
     (case st of (ps, c, n) \<Rightarrow>
        (ps = [] \<longrightarrow> c = c0)
        \<and> (ps \<noteq> [] \<longrightarrow> (\<exists>r. hd ps = ''['' @ c0 @ '']'' @ r \<and> r \<noteq> [])))"

text \<open>A loop over at least one filter leaves a segment or a pending batch.\<close>

definition busy :: "string list \<times> string \<times> VideoFilter list \<Rightarrow> bool" where
  "busy st = (case st of (ps, c, n) \<Rightarrow> ps \<noteq> [] \<or> n \<noteq> [])"

text \<open>What \<open>compileComplex\<close> does with the state the loop leaves.\<close>

definition finishVideo :: "string list \<times> string \<times> VideoFilter list \<Rightarrow> string list \<times> string"
  where
  "finishVideo st =
     (case st of (ps, c, n) \<Rightarrow>
        if n \<noteq> [] then
          (ps @ [segment c (join '','' (map serializeVideoFilter n)) ''v_out''], ''v_out'')
        else if ps \<noteq> [] then (butlast ps @ [replaceFinalLabel (last ps)], ''v_out'')
        else (ps, c))"

text \<open>A segment that reads the pad \<open>-1:v\<close> as a further input.\<close>

definition viaMissing :: "string \<Rightarrow> bool" where
  "viaMissing p = (\<exists>a b. p = a @ ''][-1:v]'' @ b \<and> b \<noteq> [])"

definition readsMissing :: "string \<Rightarrow> bool" where
  "readsMissing q = (\<exists>a b. q = a @ ''][-1:v]'' @ b)"

section \<open>Evaluation lemmas\<close>

lemma nat_toString_small: "n < 10 \<Longrightarrow> nat_toString n = [digit_char n]"
  by (subst nat_toString.simps) simp

lemma nat_toString_large:
  "\<not> n < 10 \<Longrightarrow> nat_toString n = nat_toString (n div 10) @ [digit_char (n mod 10)]"
  by (subst nat_toString.simps) simp

lemmas num_eval = number_toString_def int_toString_def nat_toString_small nat_toString_large
  digit_char_def

lemmas graph_eval = graphOf_def createMediaGraph_def fileInput_def videoStreamOf_def
  audioStreamOf_def

lemmas compile_eval = compile_def requiresComplexFilter_def compileSimple_def
  compileComplex_def complexVideo_def complexAudio_def mapArgs_def segment_def
  syntheticLabel_def simpleVideoFilterArgs_def simpleAudioFilterArgs_def outputArgs_def
  globalArgs_def inputsArgs_def inputArgs_def videoCodecArgs_def audioCodecArgs_def
  metadataArgs_def outputFlagArgs_def formatArgs_def destinationArgs_def
  hasVideoOutput_def hasAudioOutput_def getInputIndex_def encoderName_def
  videoCodecMap_def audioCodecMap_def serializeVideoFilterChain_def
  serializeAudioFilterChain_def Let_def










section \<open>The complexity classifier\<close>

text \<open>
  C1. Compilation goes to the complex compiler exactly when the graph has more than one
  input, or some video stream holds a filter of kind overlay, or there is more than one
  video stream or more than one audio stream; otherwise it goes to the simple compiler.
  In particular a graph with one input, no overlay and at most one stream of each kind is
  compiled by the simple compiler.
\<close>

theorem classifier_routes_compilation:
  "(requiresComplexFilter g \<longleftrightarrow>
      length (inputs g) > 1
      \<or> (\<exists>s \<in> set (videoStreams g). \<exists>f \<in> set (v_filters s). isOverlay f)
      \<or> length (videoStreams g) > 1 \<or> length (audioStreams g) > 1)
   \<and> (requiresComplexFilter g \<longrightarrow> compile g = compileComplex g)
   \<and> (\<not> requiresComplexFilter g \<longrightarrow> compile g = compileSimple g)
   \<and> (length (inputs g) = 1
        \<and> (\<forall>s \<in> set (videoStreams g). \<forall>f \<in> set (v_filters s). \<not> isOverlay f)
        \<and> length (videoStreams g) \<le> 1 \<and> length (audioStreams g) \<le> 1
        \<longrightarrow> compile g = compileSimple g)"
  by (auto simp: requiresComplexFilter_def compile_def list_ex_iff)

text \<open>
  C1 at two graphs: two inputs go to the complex compiler, one input with one filtered
  video stream and one audio stream to the simple one.
\<close>

theorem classifier_routes_compilation_witness:
  "length (inputs twoInputGraph) > 1 \<and> requiresComplexFilter twoInputGraph
   \<and> compile twoInputGraph = compileComplex twoInputGraph
   \<and> length (inputs simpleGraph) = 1 \<and> \<not> requiresComplexFilter simpleGraph
   \<and> compile simpleGraph = compileSimple simpleGraph"
  using classifier_routes_compilation [of twoInputGraph]
    classifier_routes_compilation [of simpleGraph]
  by (simp add: twoInputGraph_def simpleGraph_def graph_eval)

section \<open>Serialization of single filters\<close>

text \<open>
  C4. A video trim filter with at least one of start, end and duration set serializes to
  the trim expression followed at once, in the same string, by the timestamp reset
  \<open>,setpts=PTS-STARTPTS\<close>. With start 5 and end 10 the result is
  \<open>trim=start=5:end=10,setpts=PTS-STARTPTS\<close>, not the trim expression alone.
\<close>

theorem trim_followed_by_setpts:
  "(start \<noteq> None \<or> end' \<noteq> None \<or> duration \<noteq> None \<longrightarrow>
      serializeVideoFilter (Trim start end' duration)
        = ''trim=''
          @ join '':'' (optPart ''start='' number_toString start
                        @ optPart ''end='' number_toString end'
                        @ optPart ''duration='' number_toString duration)
          @ '',setpts=PTS-STARTPTS'')
   \<and> serializeVideoFilter (Trim (Some 5) (Some 10) None)
        = ''trim=start=5:end=10,setpts=PTS-STARTPTS''
   \<and> serializeVideoFilter (Trim (Some 5) (Some 10) None) \<noteq> ''trim=start=5:end=10''"
  by (cases start; cases end'; cases duration) (simp_all add: num_eval)

text \<open>C4 at a trim filter with only a duration.\<close>

theorem trim_followed_by_setpts_witness:
  "Some (3 :: number) \<noteq> None
   \<and> serializeVideoFilter (Trim None None (Some 3)) = ''trim=duration=3,setpts=PTS-STARTPTS''"
  using trim_followed_by_setpts [of None None "Some 3"] by (simp add: num_eval)

text \<open>
  C10. A video trim filter with start, end and duration all absent serializes to the
  identity filter \<open>null\<close>, with no timestamp reset; an audio trim filter with all three
  absent serializes to \<open>anull\<close>.
\<close>

theorem empty_trim_is_identity:
  "serializeVideoFilter (Trim None None None) = ''null''
   \<and> serializeAudioFilter (ATrim None None None) = ''anull''"
  by simp



lemma replaceAll_append:
  "replaceAll c r (xs @ ys) = replaceAll c r xs @ replaceAll c r ys"
  by (induction xs) auto

lemma escapeValue_Cons:
  "escapeValue (c # s)
     = (if c = CHR 0x5C then [CHR 0x5C, CHR 0x5C]
        else if c = CHR '':'' then [CHR 0x5C, CHR '':'']
        else if c = CHR 0x27 then [CHR 0x27, CHR 0x5C, CHR 0x27, CHR 0x27]
        else [c]) @ escapeValue s"
  by (simp add: escapeValue_def)

lemma spec_unescape_other: "c \<noteq> CHR 0x5C \<Longrightarrow> spec_unescape (c # s) = c # spec_unescape s"
  by (cases s) simp_all

text \<open>Backslashes and colons do come back; only the quote does not.\<close>

lemma escape_round_trip_without_quote:
  "CHR 0x27 \<notin> set s \<Longrightarrow> spec_unescape (escapeValue s) = s"
proof (induction s)
  case Nil
  then show ?case by (simp add: escapeValue_def)
next
  case (Cons c s)
  then have "c \<noteq> CHR 0x27" and "spec_unescape (escapeValue s) = s" by auto
  then show ?case by (simp add: escapeValue_Cons spec_unescape_other)
qed

text \<open>
  C5. Escaping a free-text parameter and then unescaping it should give the parameter
  back. A single quote is escaped to quote, backslash, quote, quote; removing the
  backslash escape leaves three quotes, not one. The fade colour consisting of one quote
  shows it.
\<close>

theorem quote_escape_not_undone:
  "escapeValue [CHR 0x27] = [CHR 0x27, CHR 0x5C, CHR 0x27, CHR 0x27]
   \<and> spec_unescape (escapeValue [CHR 0x27]) = [CHR 0x27, CHR 0x27, CHR 0x27]
   \<and> spec_unescape (escapeValue [CHR 0x27]) \<noteq> [CHR 0x27]
   \<and> serializeVideoFilter (Fade ''in'' 0 2 (Some [CHR 0x27]))
        = ''fade=t=in:st=0:d=2:c='' @ [CHR 0x27, CHR 0x5C, CHR 0x27, CHR 0x27]"
  by (simp add: escapeValue_def num_eval)

section \<open>The validator\<close>

lemma fps_error_iff:
  "validateVideoFilter (Fps v r) ids = [] \<longleftrightarrow> 0 < v \<and> v \<le> 240"
  by (auto simp: errIf_def)

text \<open>
  C6. An fps filter should contribute no error exactly when its value is in \<open>[1, 240]\<close>.
  The value one half is outside the interval, and the validator reports nothing for it:
  the graph is valid.
\<close>

theorem fps_below_one_accepted:
  "\<not> (1 \<le> (1 / 2 :: rat) \<and> (1 / 2 :: rat) \<le> 240)
   \<and> validateVideoFilter (Fps (1 / 2) None) (getInputIds slowFpsGraph) = []
   \<and> errors (validateGraph slowFpsGraph) = []
   \<and> valid (validateGraph slowFpsGraph)"
  by (simp add: validateGraph_def Let_def slowFpsGraph_def graph_eval
      getInputIds_def getReferencedInputs_def set_add_def errIf_def)

lemma validateGraph_errors:
  "errors (validateGraph g)
     = errIf (length (inputs g) = 0) ''At least one input is required'' None
       @ errIf (destination (g_output g) = DestPath []) ''Output destination is required'' None
       @ concat (map (\<lambda>r. errIf (r \<notin> getInputIds g)
                             (''Referenced input '' @ dq @ r @ dq @ '' does not exist'') None)
                     (getReferencedInputs g))
       @ validateVideoStreams 0 (videoStreams g) (getInputIds g)
       @ validateAudioStreams 0 (audioStreams g) (getInputIds g)
       @ (case out_video (g_output g) of
            None \<Rightarrow> []
          | Some v \<Rightarrow>
              (case vc_crf v of
                 None \<Rightarrow> []
               | Some crf \<Rightarrow>
                   errIf (crf < 0 \<or> crf > 63) ''CRF must be between 0 and 63''
                     (Some ''crf'')))"
  by (simp add: validateGraph_def Let_def)

lemma validateVideoStreams_ref:
  "i < length ss \<Longrightarrow> v_inputRef (ss ! i) \<notin> ids \<Longrightarrow>
     newValidationError
       (''Video stream '' @ nat_toString (k + i) @ '' references non-existent input '' @ dq
        @ v_inputRef (ss ! i) @ dq) None
       \<in> set (validateVideoStreams k ss ids)"
proof (induction ss arbitrary: i k)
  case Nil
  then show ?case by simp
next
  case (Cons s ss)
  show ?case
  proof (cases i)
    case 0
    with Cons.prems show ?thesis by (simp add: errIf_def)
  next
    case (Suc j)
    with Cons.prems have "j < length ss" "v_inputRef (ss ! j) \<notin> ids" by simp_all
    from Cons.IH [OF this, of "k + 1"] Suc show ?thesis by simp
  qed
qed

lemma validateVideoStreams_filter:
  "i < length ss \<Longrightarrow> f \<in> set (v_filters (ss ! i)) \<Longrightarrow>
     set (validateVideoFilter f ids) \<subseteq> set (validateVideoStreams k ss ids)"
proof (induction ss arbitrary: i k)
  case Nil
  then show ?case by simp
next
  case (Cons s ss)
  show ?case
  proof (cases i)
    case 0
    with Cons.prems show ?thesis by auto
  next
    case (Suc j)
    with Cons.prems have "j < length ss" "f \<in> set (v_filters (ss ! j))" by simp_all
    from Cons.IH [OF this, of "k + 1"] show ?thesis by auto
  qed
qed

lemma validateAudioStreams_ref:
  "i < length ss \<Longrightarrow> a_inputRef (ss ! i) \<notin> ids \<Longrightarrow>
     newValidationError
       (''Audio stream '' @ nat_toString (k + i) @ '' references non-existent input '' @ dq
        @ a_inputRef (ss ! i) @ dq) None
       \<in> set (validateAudioStreams k ss ids)"
proof (induction ss arbitrary: i k)
  case Nil
  then show ?case by simp
next
  case (Cons s ss)
  show ?case
  proof (cases i)
    case 0
    with Cons.prems show ?thesis by (simp add: errIf_def)
  next
    case (Suc j)
    with Cons.prems have "j < length ss" "a_inputRef (ss ! j) \<notin> ids" by simp_all
    from Cons.IH [OF this, of "k + 1"] Suc show ?thesis by simp
  qed
qed

lemma validateAudioStreams_filter:
  "i < length ss \<Longrightarrow> f \<in> set (a_filters (ss ! i)) \<Longrightarrow>
     set (validateAudioFilter f) \<subseteq> set (validateAudioStreams k ss ids)"
proof (induction ss arbitrary: i k)
  case Nil
  then show ?case by simp
next
  case (Cons s ss)
  show ?case
  proof (cases i)
    case 0
    with Cons.prems show ?thesis by auto
  next
    case (Suc j)
    with Cons.prems have "j < length ss" "f \<in> set (a_filters (ss ! j))" by simp_all
    from Cons.IH [OF this, of "k + 1"] show ?thesis by auto
  qed
qed

lemma errors_no_input:
  "length (inputs g) = 0 \<Longrightarrow>
     newValidationError ''At least one input is required'' None \<in> set (errors (validateGraph g))"
  by (simp add: validateGraph_errors errIf_def)

lemma errors_no_destination:
  "destination (g_output g) = DestPath [] \<Longrightarrow>
     newValidationError ''Output destination is required'' None
       \<in> set (errors (validateGraph g))"
  by (simp add: validateGraph_errors errIf_def)

lemma errors_dangling_reference:
  "r \<in> set (getReferencedInputs g) \<Longrightarrow> r \<notin> getInputIds g \<Longrightarrow>
     newValidationError (''Referenced input '' @ dq @ r @ dq @ '' does not exist'') None
       \<in> set (errors (validateGraph g))"
  by (auto simp: validateGraph_errors errIf_def)

lemma errors_video_ref:
  "i < length (videoStreams g) \<Longrightarrow> v_inputRef (videoStreams g ! i) \<notin> getInputIds g \<Longrightarrow>
     newValidationError
       (''Video stream '' @ nat_toString i @ '' references non-existent input '' @ dq
        @ v_inputRef (videoStreams g ! i) @ dq) None
       \<in> set (errors (validateGraph g))"
  using validateVideoStreams_ref [of i "videoStreams g" "getInputIds g" 0]
  by (simp add: validateGraph_errors)

lemma errors_video_filter:
  "i < length (videoStreams g) \<Longrightarrow> f \<in> set (v_filters (videoStreams g ! i)) \<Longrightarrow>
     set (validateVideoFilter f (getInputIds g)) \<subseteq> set (errors (validateGraph g))"
  using validateVideoStreams_filter [of i "videoStreams g" f "getInputIds g" 0]
  by (auto simp: validateGraph_errors)

lemma errors_audio_ref:
  "i < length (audioStreams g) \<Longrightarrow> a_inputRef (audioStreams g ! i) \<notin> getInputIds g \<Longrightarrow>
     newValidationError
       (''Audio stream '' @ nat_toString i @ '' references non-existent input '' @ dq
        @ a_inputRef (audioStreams g ! i) @ dq) None
       \<in> set (errors (validateGraph g))"
  using validateAudioStreams_ref [of i "audioStreams g" "getInputIds g" 0]
  by (simp add: validateGraph_errors)

lemma errors_audio_filter:
  "i < length (audioStreams g) \<Longrightarrow> f \<in> set (a_filters (audioStreams g ! i)) \<Longrightarrow>
     set (validateAudioFilter f) \<subseteq> set (errors (validateGraph g))"
  using validateAudioStreams_filter [of i "audioStreams g" f 0 "getInputIds g"]
  by (auto simp: validateGraph_errors)

lemma errors_crf:
  "out_video (g_output g) = Some v \<Longrightarrow> vc_crf v = Some crf \<Longrightarrow> crf < 0 \<or> crf > 63 \<Longrightarrow>
     newValidationError ''CRF must be between 0 and 63'' (Some ''crf'')
       \<in> set (errors (validateGraph g))"
  by (simp add: validateGraph_errors errIf_def)

text \<open>
  C7. \<open>validateGraph\<close> accumulates all errors: its list of errors is the errors of
  every check, one after the other (inputs, destination, referenced inputs, video streams
  with their filters, audio streams with their filters, CRF), so the error of each check
  that fails is in the list whatever the checks before it found; the result is valid
  exactly when the list is empty. \<open>assertValid\<close> throws exactly when the result is not
  valid, and what it throws is the first error of that list; on a valid graph it returns
  normally.
\<close>

theorem assertValid_raises_first_error:
  "(valid (validateGraph g) \<longleftrightarrow> errors (validateGraph g) = [])
   \<and> (\<not> valid (validateGraph g) \<longrightarrow>
        (\<exists>e rest. errors (validateGraph g) = e # rest \<and> assertValid g = Inl (Thrown e)))
   \<and> (valid (validateGraph g) \<longrightarrow> assertValid g = Inr ())
   \<and> ((\<exists>t. assertValid g = Inl t) \<longleftrightarrow> \<not> valid (validateGraph g))
   \<and> errors (validateGraph g)
       = errIf (length (inputs g) = 0) ''At least one input is required'' None
         @ errIf (destination (g_output g) = DestPath []) ''Output destination is required''
             None
         @ concat (map (\<lambda>r. errIf (r \<notin> getInputIds g)
                               (''Referenced input '' @ dq @ r @ dq @ '' does not exist'') None)
                       (getReferencedInputs g))
         @ validateVideoStreams 0 (videoStreams g) (getInputIds g)
         @ validateAudioStreams 0 (audioStreams g) (getInputIds g)
         @ (case out_video (g_output g) of
              None \<Rightarrow> []
            | Some v \<Rightarrow>
                (case vc_crf v of
                   None \<Rightarrow> []
                 | Some crf \<Rightarrow>
                     errIf (crf < 0 \<or> crf > 63) ''CRF must be between 0 and 63''
                       (Some ''crf'')))
   \<and> (length (inputs g) = 0 \<longrightarrow>
        newValidationError ''At least one input is required'' None
          \<in> set (errors (validateGraph g)))
   \<and> (destination (g_output g) = DestPath [] \<longrightarrow>
        newValidationError ''Output destination is required'' None
          \<in> set (errors (validateGraph g)))
   \<and> (\<forall>r \<in> set (getReferencedInputs g). r \<notin> getInputIds g \<longrightarrow>
        newValidationError (''Referenced input '' @ dq @ r @ dq @ '' does not exist'') None
          \<in> set (errors (validateGraph g)))
   \<and> (\<forall>i < length (videoStreams g).
        (v_inputRef (videoStreams g ! i) \<notin> getInputIds g \<longrightarrow>
           newValidationError
             (''Video stream '' @ nat_toString i @ '' references non-existent input '' @ dq
              @ v_inputRef (videoStreams g ! i) @ dq) None
             \<in> set (errors (validateGraph g)))
        \<and> (\<forall>f \<in> set (v_filters (videoStreams g ! i)).
              set (validateVideoFilter f (getInputIds g)) \<subseteq> set (errors (validateGraph g))))
   \<and> (\<forall>i < length (audioStreams g).
        (a_inputRef (audioStreams g ! i) \<notin> getInputIds g \<longrightarrow>
           newValidationError
             (''Audio stream '' @ nat_toString i @ '' references non-existent input '' @ dq
              @ a_inputRef (audioStreams g ! i) @ dq) None
             \<in> set (errors (validateGraph g)))
        \<and> (\<forall>f \<in> set (a_filters (audioStreams g ! i)).
              set (validateAudioFilter f) \<subseteq> set (errors (validateGraph g))))
   \<and> (\<forall>v crf. out_video (g_output g) = Some v \<and> vc_crf v = Some crf
          \<and> (crf < 0 \<or> crf > 63) \<longrightarrow>
        newValidationError ''CRF must be between 0 and 63'' (Some ''crf'')
          \<in> set (errors (validateGraph g)))"
proof -
  have v: "valid (validateGraph g) \<longleftrightarrow> errors (validateGraph g) = []"
    by (simp add: validateGraph_def Let_def)
  have first: "(valid (validateGraph g) \<longleftrightarrow> errors (validateGraph g) = [])
   \<and> (\<not> valid (validateGraph g) \<longrightarrow>
        (\<exists>e rest. errors (validateGraph g) = e # rest \<and> assertValid g = Inl (Thrown e)))
   \<and> (valid (validateGraph g) \<longrightarrow> assertValid g = Inr ())
   \<and> ((\<exists>t. assertValid g = Inl t) \<longleftrightarrow> \<not> valid (validateGraph g))"
    using v by (cases "errors (validateGraph g)") (simp_all add: assertValid_def Let_def)
  have crf: "\<forall>v crf. out_video (g_output g) = Some v \<and> vc_crf v = Some crf
          \<and> (crf < 0 \<or> crf > 63) \<longrightarrow>
        newValidationError ''CRF must be between 0 and 63'' (Some ''crf'')
          \<in> set (errors (validateGraph g))"
    using errors_crf by blast
  show ?thesis
    apply (intro conjI)
    using first apply blast
    using first apply blast
    using first apply blast
    using first apply blast
    apply (rule validateGraph_errors)
    using errors_no_input apply blast
    using errors_no_destination apply blast
    using errors_dangling_reference apply blast
    using errors_video_ref errors_video_filter apply blast
    using errors_audio_ref errors_audio_filter apply blast
    using crf apply blast
    done
qed

lemma brokenGraph_errors:
  "errors (validateGraph brokenGraph)
     = [newValidationError ''Output destination is required'' None,
        newValidationError (''Referenced input '' @ dq @ ''nope'' @ dq @ '' does not exist'')
          None,
        newValidationError
          (''Video stream 0 references non-existent input '' @ dq @ ''nope'' @ dq) None,
        newValidationError ''FPS must be between 1 and 240'' (Some ''fps.value''),
        newValidationError ''Sample rate should be between 8000 and 192000 Hz''
          (Some ''aresample.sampleRate'')]"
  by (simp add: validateGraph_errors brokenGraph_def graph_eval getInputIds_def
      getReferencedInputs_def set_add_def errIf_def nat_toString_small digit_char_def)

text \<open>
  C7 at the empty graph, which has two errors, the missing input first; at a valid graph;
  and at a graph where four different checks fail and all five errors are listed, the
  missing destination first.
\<close>

theorem assertValid_raises_first_error_witness:
  "\<not> valid (validateGraph createMediaGraph)
   \<and> errors (validateGraph createMediaGraph)
       = [newValidationError ''At least one input is required'' None,
          newValidationError ''Output destination is required'' None]
   \<and> assertValid createMediaGraph
       = Inl (Thrown (newValidationError ''At least one input is required'' None))
   \<and> valid (validateGraph simpleGraph) \<and> assertValid simpleGraph = Inr ()
   \<and> length (errors (validateGraph brokenGraph)) = 5
   \<and> newValidationError ''FPS must be between 1 and 240'' (Some ''fps.value'')
        \<in> set (errors (validateGraph brokenGraph))
   \<and> newValidationError ''Sample rate should be between 8000 and 192000 Hz''
          (Some ''aresample.sampleRate'')
        \<in> set (errors (validateGraph brokenGraph))
   \<and> assertValid brokenGraph
        = Inl (Thrown (newValidationError ''Output destination is required'' None))"
proof -
  have a: "\<not> valid (validateGraph createMediaGraph)
   \<and> errors (validateGraph createMediaGraph)
       = [newValidationError ''At least one input is required'' None,
          newValidationError ''Output destination is required'' None]
   \<and> assertValid createMediaGraph
       = Inl (Thrown (newValidationError ''At least one input is required'' None))
   \<and> valid (validateGraph simpleGraph) \<and> assertValid simpleGraph = Inr ()"
    using assertValid_raises_first_error [of createMediaGraph]
      assertValid_raises_first_error [of simpleGraph]
    by (simp add: validateGraph_def Let_def createMediaGraph_def simpleGraph_def graph_eval
        getInputIds_def getReferencedInputs_def set_add_def errIf_def)
  note w = assertValid_raises_first_error [of brokenGraph]
  have nv: "\<not> valid (validateGraph brokenGraph)" using w brokenGraph_errors by simp
  then obtain e rest where "errors (validateGraph brokenGraph) = e # rest"
    "assertValid brokenGraph = Inl (Thrown e)"
    using w by blast
  then have b: "assertValid brokenGraph
        = Inl (Thrown (newValidationError ''Output destination is required'' None))"
    using brokenGraph_errors by simp
  have c: "length (errors (validateGraph brokenGraph)) = 5"
    by (simp add: brokenGraph_errors)
  have d: "newValidationError ''FPS must be between 1 and 240'' (Some ''fps.value'')
        \<in> set (errors (validateGraph brokenGraph))"
    "newValidationError ''Sample rate should be between 8000 and 192000 Hz''
          (Some ''aresample.sampleRate'')
        \<in> set (errors (validateGraph brokenGraph))"
    by (simp_all add: brokenGraph_errors)
  show ?thesis using a b c d by simp
qed

section \<open>Disabled streams\<close>

lemma all_disabled_video: "\<forall>s \<in> set (videoStreams g). v_disabled s \<Longrightarrow> \<not> hasVideoOutput g"
  by (simp add: hasVideoOutput_def list_ex_iff)

lemma all_disabled_audio: "\<forall>s \<in> set (audioStreams g). a_disabled s \<Longrightarrow> \<not> hasAudioOutput g"
  by (simp add: hasAudioOutput_def list_ex_iff)

text \<open>
  With every stream disabled both compilers emit only the global flags, the inputs and the
  output blocks; without codec configurations the codec blocks are the two disable flags.
\<close>

lemma all_disabled_compile:
  assumes "\<forall>s \<in> set (videoStreams g). v_disabled s"
    and "\<forall>s \<in> set (audioStreams g). a_disabled s"
  shows "args (compile g)
           = globalArgs g @ inputsArgs g @ videoCodecArgs False g @ audioCodecArgs False g
             @ metadataArgs g @ outputFlagArgs g @ formatArgs g @ destinationArgs g"
proof -
  have v: "\<not> hasVideoOutput g" using assms(1) by (rule all_disabled_video)
  have a: "\<not> hasAudioOutput g" using assms(2) by (rule all_disabled_audio)
  have s: "args (compileSimple g) = globalArgs g @ inputsArgs g @ outputArgs False False g"
    using v a by (simp add: compileSimple_def simpleVideoFilterArgs_def simpleAudioFilterArgs_def)
  have c: "args (compileComplex g) = globalArgs g @ inputsArgs g @ outputArgs False False g"
    using v a by (simp add: compileComplex_def complexVideo_def complexAudio_def mapArgs_def)
  show ?thesis using s c by (simp add: compile_def outputArgs_def)
qed

lemma disabled_without_codec:
  assumes "\<forall>s \<in> set (videoStreams g). v_disabled s"
    and "\<forall>s \<in> set (audioStreams g). a_disabled s"
    and "out_video (g_output g) = None" and "out_audio (g_output g) = None"
  shows "args (compile g)
           = globalArgs g @ inputsArgs g @ [''-vn'', ''-an''] @ metadataArgs g
             @ outputFlagArgs g @ formatArgs g @ destinationArgs g"
  using all_disabled_compile [OF assms(1,2)] assms(3,4)
  by (simp add: videoCodecArgs_def audioCodecArgs_def)

text \<open>
  C3. A graph in which all video streams and all audio streams are disabled should compile
  to a vector with both \<open>-vn\<close> and \<open>-an\<close> and no codec block. With an audio codec
  configured the compiler emits the audio codec block and leaves \<open>-an\<close> out, on a graph
  that passes validation: the muted audio is encoded.
\<close>

theorem muted_with_codec_keeps_codec_block:
  "list_all v_disabled (videoStreams mutedWithCodecGraph)
   \<and> list_all a_disabled (audioStreams mutedWithCodecGraph)
   \<and> valid (validateGraph mutedWithCodecGraph)
   \<and> args (compile mutedWithCodecGraph)
        = [''-y'', ''-i'', ''input.mp4'', ''-vn'', ''-c:a'', ''aac'', ''output.mp4'']
   \<and> ''-an'' \<notin> set (args (compile mutedWithCodecGraph))"
proof -
  have a: "args (compile mutedWithCodecGraph)
        = [''-y'', ''-i'', ''input.mp4'', ''-vn'', ''-c:a'', ''aac'', ''output.mp4'']"
    by (simp add: mutedWithCodecGraph_def aacConfig_def graph_eval compile_eval)
  have b: "valid (validateGraph mutedWithCodecGraph)"
    by (simp add: validateGraph_def Let_def mutedWithCodecGraph_def aacConfig_def graph_eval
        getInputIds_def getReferencedInputs_def set_add_def errIf_def)
  have c: "list_all v_disabled (videoStreams mutedWithCodecGraph)
   \<and> list_all a_disabled (audioStreams mutedWithCodecGraph)"
    by (simp add: mutedWithCodecGraph_def graph_eval)
  show ?thesis using b c by (simp add: a)
qed

section \<open>The complex compiler on an overlay\<close>

lemma find_hasVideoOutput:
  "find (\<lambda>s. \<not> v_disabled s) (videoStreams g) = Some vs \<Longrightarrow> hasVideoOutput g"
  by (auto simp: hasVideoOutput_def list_ex_iff find_Some_iff)

lemma findIndexFrom_missing: "\<forall>x \<in> set xs. \<not> P x \<Longrightarrow> findIndexFrom k P xs = - 1"
  by (induction xs arbitrary: k) auto

lemma getInputIndex_missing: "ident \<notin> getInputIds g \<Longrightarrow> getInputIndex g ident = - 1"
  by (auto simp: getInputIds_def getInputIndex_def intro!: findIndexFrom_missing)

lemma int_toString_evals: "int_toString 0 = ''0''" "int_toString 1 = ''1''"
  "int_toString (- 1) = ''-1''"
  by (simp_all add: num_eval)

lemma number_toString_10: "number_toString 10 = ''10''"
  by (simp add: num_eval)

lemma overlayWithAudio_video:
  "complexVideo overlayWithAudioGraph = ([''[0:v][1:v]overlay=x=10:y=10[v_out]''], ''v_out'')"
  by (simp add: overlayWithAudioGraph_def overlayAt10_def graph_eval complexVideo_def
      hasVideoOutput_def getInputIndex_def syntheticLabel_def num_eval)

lemma overlayWithAudio_audio:
  "complexAudio overlayWithAudioGraph = ([''[0:a]volume=2[a_out]''], ''a_out'')"
  by (simp add: overlayWithAudioGraph_def overlayAt10_def graph_eval complexAudio_def
      hasAudioOutput_def getInputIndex_def segment_def num_eval)

lemma overlayWithAudio_rest:
  "globalArgs overlayWithAudioGraph = [''-y'']"
  "inputsArgs overlayWithAudioGraph = [''-i'', ''a.mp4'', ''-i'', ''b.mp4'']"
  "hasVideoOutput overlayWithAudioGraph" "hasAudioOutput overlayWithAudioGraph"
  "outputArgs True True overlayWithAudioGraph = [''output.mp4'']"
  by (simp_all add: overlayWithAudioGraph_def graph_eval globalArgs_def inputsArgs_def
      inputArgs_def hasVideoOutput_def hasAudioOutput_def outputArgs_def videoCodecArgs_def
      audioCodecArgs_def metadataArgs_def outputFlagArgs_def formatArgs_def
      destinationArgs_def)

text \<open>
  C2 as stated fails: when the selected audio stream has a filter, its segment is joined
  to the same expression, which is then longer than the overlay segment.
\<close>

theorem overlay_with_audio_counterexample:
  "length (inputs overlayWithAudioGraph) = 2
   \<and> map v_filters (videoStreams overlayWithAudioGraph)
        = [[Overlay ''input_1'' (ENum 10) (ENum 10) False False]]
   \<and> args (compileComplex overlayWithAudioGraph)
        = [''-y'', ''-i'', ''a.mp4'', ''-i'', ''b.mp4'', ''-filter_complex'',
           ''[0:v][1:v]overlay=x=10:y=10[v_out];[0:a]volume=2[a_out]'',
           ''-map'', ''[v_out]'', ''-map'', ''[a_out]'', ''output.mp4'']
   \<and> ''[0:v][1:v]overlay=x=10:y=10[v_out]''
        \<notin> set (args (compileComplex overlayWithAudioGraph))"
proof -
  have a: "args (compileComplex overlayWithAudioGraph)
        = [''-y'', ''-i'', ''a.mp4'', ''-i'', ''b.mp4'', ''-filter_complex'',
           ''[0:v][1:v]overlay=x=10:y=10[v_out];[0:a]volume=2[a_out]'',
           ''-map'', ''[v_out]'', ''-map'', ''[a_out]'', ''output.mp4'']"
    by (simp add: compileComplex_def overlayWithAudio_video overlayWithAudio_audio
        overlayWithAudio_rest mapArgs_def)
  have b: "length (inputs overlayWithAudioGraph) = 2
   \<and> map v_filters (videoStreams overlayWithAudioGraph)
        = [[Overlay ''input_1'' (ENum 10) (ENum 10) False False]]"
    by (simp add: overlayWithAudioGraph_def overlayAt10_def graph_eval)
  show ?thesis using b by (simp add: a)
qed

lemma overlay_scenario_video:
  assumes "inputs g = [i0, i1]" and "input_id i0 \<noteq> input_id i1"
    and "find (\<lambda>s. \<not> v_disabled s) (videoStreams g) = Some vs"
    and "v_inputRef vs = input_id i0"
    and "v_filters vs = [Overlay (input_id i1) (ENum 10) (ENum 10) False False]"
  shows "complexVideo g = ([''[0:v][1:v]overlay=x=10:y=10[v_out]''], ''v_out'')"
proof -
  have hv: "hasVideoOutput g" using assms(3) by (rule find_hasVideoOutput)
  have i0: "getInputIndex g (input_id i0) = 0"
    using assms(1) by (simp add: getInputIndex_def)
  have i1: "getInputIndex g (input_id i1) = 1"
    using assms(1,2) by (simp add: getInputIndex_def)
  have loop: "videoLoop g (v_filters vs) ([], ''0:v'', [])
                = ([''[0:v][1:v]overlay=x=10:y=10[v_0]''], ''v_0'', [])"
    using assms(5) i1
    by (simp add: syntheticLabel_def nat_toString_small digit_char_def int_toString_evals
        number_toString_10)
  show ?thesis
    using hv assms(3,4) i0 loop by (simp add: complexVideo_def int_toString_evals)
qed

lemma overlay_scenario_args:
  assumes "hasVideoOutput g"
    and "complexVideo g = ([''[0:v][1:v]overlay=x=10:y=10[v_out]''], ''v_out'')"
  shows "\<exists>rest. args (compileComplex g)
           = globalArgs g @ inputsArgs g
             @ [''-filter_complex'',
                join '';'' (''[0:v][1:v]overlay=x=10:y=10[v_out]'' # fst (complexAudio g)),
                ''-map'', ''[v_out]''] @ rest"
proof -
  obtain ap al where ca: "complexAudio g = (ap, al)" by (cases "complexAudio g") auto
  show ?thesis
    using assms(1) by (simp add: compileComplex_def assms(2) ca mapArgs_def Let_def)
qed

lemma complexAudio_unfiltered:
  assumes "case find (\<lambda>s. \<not> a_disabled s) (audioStreams g) of
             None \<Rightarrow> True | Some as \<Rightarrow> a_filters as = []"
  shows "fst (complexAudio g) = []"
proof (cases "find (\<lambda>s. \<not> a_disabled s) (audioStreams g)")
  case None
  then show ?thesis by (simp add: complexAudio_def)
next
  case (Some as)
  with assms have "a_filters as = []" by simp
  with Some show ?thesis by (simp add: complexAudio_def Let_def)
qed

lemma find_hasAudioOutput:
  "find (\<lambda>s. \<not> a_disabled s) (audioStreams g) = Some as \<Longrightarrow> hasAudioOutput g"
  by (auto simp: hasAudioOutput_def list_ex_iff find_Some_iff)

lemma complexAudio_filtered:
  assumes "find (\<lambda>s. \<not> a_disabled s) (audioStreams g) = Some as" and "a_filters as \<noteq> []"
  shows "fst (complexAudio g)
           = [segment (int_toString (getInputIndex g (a_inputRef as)) @ '':a'')
                (join '','' (map serializeAudioFilter (a_filters as))) ''a_out'']"
  using assms find_hasAudioOutput [OF assms(1)] by (simp add: complexAudio_def Let_def)

text \<open>
  C2, amended. Take a graph with two inputs of different identifiers whose selected (first
  enabled) video stream reads the first input and has as its only filter the overlay of
  the second input at \<open>x = 10\<close>, \<open>y = 10\<close> with neither the alpha nor the shortest
  option. The complex compiler emits, after the global and input arguments,
  \<open>-filter_complex\<close> with an expression and then \<open>-map\<close> with \<open>[v_out]\<close>. When the
  selected audio stream, if there is one, has no filters, the expression is exactly
  \<open>[0:v][1:v]overlay=x=10:y=10[v_out]\<close>; when it has filters, the expression is that
  segment, a semicolon and the audio segment \<open>[i:a]chain[a_out]\<close>.
\<close>

theorem overlay_scenario_expression:
  assumes "inputs g = [i0, i1]" and "input_id i0 \<noteq> input_id i1"
    and "find (\<lambda>s. \<not> v_disabled s) (videoStreams g) = Some vs"
    and "v_inputRef vs = input_id i0"
    and "v_filters vs = [Overlay (input_id i1) (ENum 10) (ENum 10) False False]"
  shows "((case find (\<lambda>s. \<not> a_disabled s) (audioStreams g) of
             None \<Rightarrow> True | Some as \<Rightarrow> a_filters as = []) \<longrightarrow>
          (\<exists>rest. args (compileComplex g)
             = globalArgs g @ inputsArgs g
               @ [''-filter_complex'', ''[0:v][1:v]overlay=x=10:y=10[v_out]'',
                  ''-map'', ''[v_out]''] @ rest))
       \<and> (find (\<lambda>s. \<not> a_disabled s) (audioStreams g) = Some as \<and> a_filters as \<noteq> [] \<longrightarrow>
          (\<exists>rest. args (compileComplex g)
             = globalArgs g @ inputsArgs g
               @ [''-filter_complex'',
                  ''[0:v][1:v]overlay=x=10:y=10[v_out]'' @ '';''
                  @ segment (int_toString (getInputIndex g (a_inputRef as)) @ '':a'')
                      (join '','' (map serializeAudioFilter (a_filters as))) ''a_out'',
                  ''-map'', ''[v_out]''] @ rest))"
proof -
  have hv: "hasVideoOutput g" using assms(3) by (rule find_hasVideoOutput)
  have cv: "complexVideo g = ([''[0:v][1:v]overlay=x=10:y=10[v_out]''], ''v_out'')"
    using assms by (rule overlay_scenario_video)
  obtain rest where a: "args (compileComplex g)
           = globalArgs g @ inputsArgs g
             @ [''-filter_complex'',
                join '';'' (''[0:v][1:v]overlay=x=10:y=10[v_out]'' # fst (complexAudio g)),
                ''-map'', ''[v_out]''] @ rest"
    using overlay_scenario_args [OF hv cv] by blast
  have one: "(case find (\<lambda>s. \<not> a_disabled s) (audioStreams g) of
             None \<Rightarrow> True | Some as \<Rightarrow> a_filters as = []) \<longrightarrow>
          (\<exists>rest. args (compileComplex g)
             = globalArgs g @ inputsArgs g
               @ [''-filter_complex'', ''[0:v][1:v]overlay=x=10:y=10[v_out]'',
                  ''-map'', ''[v_out]''] @ rest)"
    using a complexAudio_unfiltered [of g] by auto
  have two: "find (\<lambda>s. \<not> a_disabled s) (audioStreams g) = Some as \<and> a_filters as \<noteq> [] \<longrightarrow>
          (\<exists>rest. args (compileComplex g)
             = globalArgs g @ inputsArgs g
               @ [''-filter_complex'',
                  ''[0:v][1:v]overlay=x=10:y=10[v_out]'' @ '';''
                  @ segment (int_toString (getInputIndex g (a_inputRef as)) @ '':a'')
                      (join '','' (map serializeAudioFilter (a_filters as))) ''a_out'',
                  ''-map'', ''[v_out]''] @ rest)"
    using a complexAudio_filtered [of g as] by auto
  show ?thesis using one two by blast
qed

lemma overlayGraph_facts:
  "inputs overlayGraph = [fileInput ''input_0'' ''a.mp4'', fileInput ''input_1'' ''b.mp4'']"
  "input_id (fileInput ''input_0'' ''a.mp4'') \<noteq> input_id (fileInput ''input_1'' ''b.mp4'')"
  "find (\<lambda>s. \<not> v_disabled s) (videoStreams overlayGraph)
     = Some (videoStreamOf ''input_0'' [overlayAt10 ''input_1''])"
  "v_inputRef (videoStreamOf ''input_0'' [overlayAt10 ''input_1''])
     = input_id (fileInput ''input_0'' ''a.mp4'')"
  "v_filters (videoStreamOf ''input_0'' [overlayAt10 ''input_1''])
     = [Overlay (input_id (fileInput ''input_1'' ''b.mp4'')) (ENum 10) (ENum 10) False False]"
  "case find (\<lambda>s. \<not> a_disabled s) (audioStreams overlayGraph) of
     None \<Rightarrow> True | Some as \<Rightarrow> a_filters as = []"
  by (simp_all add: overlayGraph_def overlayAt10_def graph_eval)

lemma overlayGraph_prefix:
  "globalArgs overlayGraph @ inputsArgs overlayGraph = [''-y'', ''-i'', ''a.mp4'', ''-i'', ''b.mp4'']"
  by (simp add: overlayGraph_def graph_eval globalArgs_def inputsArgs_def inputArgs_def)

lemma overlayWithAudioGraph_facts:
  "inputs overlayWithAudioGraph
     = [fileInput ''input_0'' ''a.mp4'', fileInput ''input_1'' ''b.mp4'']"
  "input_id (fileInput ''input_0'' ''a.mp4'') \<noteq> input_id (fileInput ''input_1'' ''b.mp4'')"
  "find (\<lambda>s. \<not> v_disabled s) (videoStreams overlayWithAudioGraph)
     = Some (videoStreamOf ''input_0'' [overlayAt10 ''input_1''])"
  "v_inputRef (videoStreamOf ''input_0'' [overlayAt10 ''input_1''])
     = input_id (fileInput ''input_0'' ''a.mp4'')"
  "v_filters (videoStreamOf ''input_0'' [overlayAt10 ''input_1''])
     = [Overlay (input_id (fileInput ''input_1'' ''b.mp4'')) (ENum 10) (ENum 10) False False]"
  by (simp_all add: overlayWithAudioGraph_def overlayAt10_def graph_eval)

lemma overlayWithAudioGraph_audio:
  "find (\<lambda>s. \<not> a_disabled s) (audioStreams overlayWithAudioGraph)
     = Some (audioStreamOf ''input_0'' [Volume (ENum 2) None])"
  "a_filters (audioStreamOf ''input_0'' [Volume (ENum 2) None]) \<noteq> []"
  "segment (int_toString (getInputIndex overlayWithAudioGraph
              (a_inputRef (audioStreamOf ''input_0'' [Volume (ENum 2) None]))) @ '':a'')
     (join '','' (map serializeAudioFilter
        (a_filters (audioStreamOf ''input_0'' [Volume (ENum 2) None])))) ''a_out''
     = ''[0:a]volume=2[a_out]''"
  "globalArgs overlayWithAudioGraph @ inputsArgs overlayWithAudioGraph
     = [''-y'', ''-i'', ''a.mp4'', ''-i'', ''b.mp4'']"
  by (simp_all add: overlayWithAudioGraph_def overlayAt10_def graph_eval getInputIndex_def
      segment_def num_eval globalArgs_def inputsArgs_def inputArgs_def)

text \<open>
  C2, amended, at the two-input overlay graph without audio streams and at the same graph
  with a volume filter on its audio stream.
\<close>

theorem overlay_scenario_expression_witness:
  "length (inputs overlayGraph) = 2
   \<and> map v_filters (videoStreams overlayGraph)
        = [[Overlay ''input_1'' (ENum 10) (ENum 10) False False]]
   \<and> take 9 (args (compileComplex overlayGraph))
        = [''-y'', ''-i'', ''a.mp4'', ''-i'', ''b.mp4'', ''-filter_complex'',
           ''[0:v][1:v]overlay=x=10:y=10[v_out]'', ''-map'', ''[v_out]'']
   \<and> take 9 (args (compileComplex overlayWithAudioGraph))
        = [''-y'', ''-i'', ''a.mp4'', ''-i'', ''b.mp4'', ''-filter_complex'',
           ''[0:v][1:v]overlay=x=10:y=10[v_out];[0:a]volume=2[a_out]'', ''-map'', ''[v_out]'']"
proof -
  note w1 = overlay_scenario_expression [OF overlayGraph_facts(1-5)]
  note w2 = overlay_scenario_expression [OF overlayWithAudioGraph_facts,
      of "audioStreamOf ''input_0'' [Volume (ENum 2) None]"]
  obtain rest where "args (compileComplex overlayGraph)
      = globalArgs overlayGraph @ inputsArgs overlayGraph
        @ [''-filter_complex'', ''[0:v][1:v]overlay=x=10:y=10[v_out]'', ''-map'', ''[v_out]'']
        @ rest"
    using w1 overlayGraph_facts(6) by blast
  then have "args (compileComplex overlayGraph)
      = [''-y'', ''-i'', ''a.mp4'', ''-i'', ''b.mp4'', ''-filter_complex'',
         ''[0:v][1:v]overlay=x=10:y=10[v_out]'', ''-map'', ''[v_out]''] @ rest"
    using overlayGraph_prefix by simp
  then have a: "take 9 (args (compileComplex overlayGraph))
        = [''-y'', ''-i'', ''a.mp4'', ''-i'', ''b.mp4'', ''-filter_complex'',
           ''[0:v][1:v]overlay=x=10:y=10[v_out]'', ''-map'', ''[v_out]'']"
    by simp
  obtain rest' where "args (compileComplex overlayWithAudioGraph)
      = globalArgs overlayWithAudioGraph @ inputsArgs overlayWithAudioGraph
        @ [''-filter_complex'',
           ''[0:v][1:v]overlay=x=10:y=10[v_out]'' @ '';'' @ ''[0:a]volume=2[a_out]'',
           ''-map'', ''[v_out]''] @ rest'"
    using w2 overlayWithAudioGraph_audio(1,2) unfolding overlayWithAudioGraph_audio(3)
    by blast
  then have "args (compileComplex overlayWithAudioGraph)
      = [''-y'', ''-i'', ''a.mp4'', ''-i'', ''b.mp4'', ''-filter_complex'',
         ''[0:v][1:v]overlay=x=10:y=10[v_out];[0:a]volume=2[a_out]'', ''-map'', ''[v_out]'']
        @ rest'"
    using overlayWithAudioGraph_audio(4) by simp
  then have b: "take 9 (args (compileComplex overlayWithAudioGraph))
        = [''-y'', ''-i'', ''a.mp4'', ''-i'', ''b.mp4'', ''-filter_complex'',
           ''[0:v][1:v]overlay=x=10:y=10[v_out];[0:a]volume=2[a_out]'', ''-map'', ''[v_out]'']"
    by simp
  have c: "length (inputs overlayGraph) = 2
   \<and> map v_filters (videoStreams overlayGraph)
        = [[Overlay ''input_1'' (ENum 10) (ENum 10) False False]]"
    by (simp add: overlayGraph_def overlayAt10_def graph_eval)
  show ?thesis using a b c by simp
qed

section \<open>Pad addresses of inputs that do not exist\<close>

lemma videoLoop_other:
  "\<not> isOverlay f \<Longrightarrow>
     videoLoop g (f # rest) (ps, c, n) = videoLoop g rest (ps, c, n @ [f])"
  by (cases f) simp_all

lemma videoLoop_overlay:
  "videoLoop g (Overlay ref x y al sh # rest) st
     = videoLoop g rest (overlayStep g (Overlay ref x y al sh) ref st)"
  by (cases st) (simp add: overlayStep_def Let_def del: serializeVideoFilter.simps)

lemma isOverlayE: "isOverlay f \<Longrightarrow> \<exists>ref x y al sh. f = Overlay ref x y al sh"
  by (cases f) simp_all

lemma startsFrom_overlayStep:
  assumes "startsFrom c0 st"
  shows "startsFrom c0 (overlayStep g f ref st)"
proof -
  obtain ps c n where st: "st = (ps, c, n)" by (cases st) auto
  show ?thesis
  proof (cases "ps = []")
    case True
    with assms st have "c = c0" by (simp add: startsFrom_def)
    with True st show ?thesis
      by (simp add: startsFrom_def overlayStep_def Let_def segment_def)
  next
    case False
    with assms st obtain r where "hd ps = ''['' @ c0 @ '']'' @ r" "r \<noteq> []"
      by (auto simp: startsFrom_def)
    with False st show ?thesis
      by (simp add: startsFrom_def overlayStep_def Let_def hd_append)
  qed
qed

lemma startsFrom_videoLoop:
  "startsFrom c0 st \<Longrightarrow> startsFrom c0 (videoLoop g fs st)"
proof (induction fs arbitrary: st)
  case Nil
  then show ?case by simp
next
  case (Cons f fs)
  obtain ps c n where st: "st = (ps, c, n)" by (cases st) auto
  show ?case
  proof (cases "isOverlay f")
    case True
    then obtain ref x y al sh where f: "f = Overlay ref x y al sh"
      using isOverlayE by blast
    show ?thesis
      using Cons by (simp only: f videoLoop_overlay startsFrom_overlayStep)
  next
    case False
    have "startsFrom c0 (ps, c, n @ [f])"
      using Cons.prems st by (simp add: startsFrom_def)
    then show ?thesis using Cons.IH False st by (simp add: videoLoop_other)
  qed
qed

lemma busy_overlayStep: "busy (overlayStep g f ref st)"
  by (cases st) (simp add: busy_def overlayStep_def Let_def)

lemma busy_videoLoop: "busy st \<Longrightarrow> busy (videoLoop g fs st)"
proof (induction fs arbitrary: st)
  case Nil
  then show ?case by simp
next
  case (Cons f fs)
  obtain ps c n where st: "st = (ps, c, n)" by (cases st) auto
  show ?case
  proof (cases "isOverlay f")
    case True
    then obtain ref x y al sh where f: "f = Overlay ref x y al sh"
      using isOverlayE by blast
    show ?thesis
      using Cons.IH by (simp only: f videoLoop_overlay busy_overlayStep)
  next
    case False
    have "busy (ps, c, n @ [f])" by (simp add: busy_def)
    then show ?thesis using Cons.IH False st by (simp add: videoLoop_other)
  qed
qed

lemma busy_videoLoop_nonempty: "fs \<noteq> [] \<Longrightarrow> busy (videoLoop g fs st)"
proof (cases fs)
  case Nil
  assume "fs \<noteq> []"
  with Nil show ?thesis by simp
next
  case (Cons f rest)
  obtain ps c n where st: "st = (ps, c, n)" by (cases st) auto
  show ?thesis
  proof (cases "isOverlay f")
    case True
    then obtain ref x y al sh where f: "f = Overlay ref x y al sh"
      using isOverlayE by blast
    show ?thesis
      by (simp only: Cons f videoLoop_overlay busy_overlayStep busy_videoLoop)
  next
    case False
    have "busy (ps, c, n @ [f])" by (simp add: busy_def)
    then show ?thesis using False st Cons by (simp add: videoLoop_other busy_videoLoop)
  qed
qed

lemma replaceFinalLabel_keep:
  "w \<noteq> [] \<Longrightarrow> replaceFinalLabel (u @ CHR '']'' # w) = u @ CHR '']'' # replaceFinalLabel w"
proof (induction u)
  case Nil
  then show ?case by simp
next
  case (Cons a u)
  then have "CHR '']'' \<in> set (butlast (u @ CHR '']'' # w))"
    by (simp add: butlast_append)
  with Cons show ?case by simp
qed

lemma join_hd: "ps \<noteq> [] \<Longrightarrow> \<exists>t. join sep ps = hd ps @ t"
  by (induction sep ps rule: join.induct) auto

lemma join_member: "p \<in> set ps \<Longrightarrow> \<exists>u v. join sep ps = u @ p @ v"
proof (induction sep ps rule: join.induct)
  case (1 sep)
  then show ?case by simp
next
  case (2 sep x)
  then have "join sep [x] = [] @ p @ []" by simp
  then show ?case by blast
next
  case (3 sep x y ys)
  show ?case
  proof (cases "p = x")
    case True
    then have "join sep (x # y # ys) = [] @ p @ (sep @ join sep (y # ys))" by simp
    then show ?thesis by blast
  next
    case False
    with 3 obtain u v where "join sep (y # ys) = u @ p @ v" by auto
    then have "join sep (x # y # ys) = (x @ sep @ u) @ p @ v" by simp
    then show ?thesis by blast
  qed
qed


lemma complexVideo_selected:
  assumes "find (\<lambda>s. \<not> v_disabled s) (videoStreams g) = Some vs"
  shows "complexVideo g
           = finishVideo (videoLoop g (v_filters vs)
               ([], int_toString (getInputIndex g (v_inputRef vs)) @ '':v'', []))"
proof -
  have hv: "hasVideoOutput g" using assms by (rule find_hasVideoOutput)
  obtain ps c n where l: "videoLoop g (v_filters vs)
      ([], int_toString (getInputIndex g (v_inputRef vs)) @ '':v'', []) = (ps, c, n)"
    using prod_cases3 by blast
  show ?thesis
    using hv assms l by (simp add: complexVideo_def finishVideo_def Let_def)
qed

lemma finishVideo_first:
  assumes "startsFrom c0 st" and "busy st"
  shows "\<exists>ps r. finishVideo st = (ps, ''v_out'') \<and> ps \<noteq> [] \<and> hd ps = ''['' @ c0 @ '']'' @ r"
proof -
  obtain ps c n where st: "st = (ps, c, n)" by (cases st) auto
  show ?thesis
  proof (cases "ps = []")
    case True
    with assms st have "c = c0" "n \<noteq> []" by (simp_all add: startsFrom_def busy_def)
    with True st show ?thesis by (simp add: finishVideo_def segment_def)
  next
    case False
    with assms st obtain r where r: "hd ps = ''['' @ c0 @ '']'' @ r" "r \<noteq> []"
      by (auto simp: startsFrom_def)
    show ?thesis
    proof (cases "n = []")
      case n: False
      with False st r show ?thesis by (simp add: finishVideo_def hd_append)
    next
      case n: True
      show ?thesis
      proof (cases "butlast ps = []")
        case True
        with False have "last ps = hd ps"
          by (metis append_butlast_last_id append_Nil list.sel(1))
        with r have "replaceFinalLabel (last ps) = (''['' @ c0) @ CHR '']'' # replaceFinalLabel r"
          using replaceFinalLabel_keep [of r "''['' @ c0"] by simp
        with True False st n show ?thesis by (simp add: finishVideo_def)
      next
        case b: False
        then have "hd (butlast ps) = hd ps"
          by (metis False append_butlast_last_id hd_append2)
        with b False st n r show ?thesis by (simp add: finishVideo_def hd_append)
      qed
    qed
  qed
qed

lemma overlayStep_keeps:
  "p \<in> set (fst st) \<Longrightarrow> p \<in> set (fst (overlayStep g f ref st))"
  by (cases st) (auto simp: overlayStep_def Let_def)

lemma videoLoop_keeps: "p \<in> set (fst st) \<Longrightarrow> p \<in> set (fst (videoLoop g fs st))"
proof (induction fs arbitrary: st)
  case Nil
  then show ?case by simp
next
  case (Cons f fs)
  obtain ps c n where st: "st = (ps, c, n)" by (cases st) auto
  show ?case
  proof (cases "isOverlay f")
    case True
    then obtain ref x y al sh where f: "f = Overlay ref x y al sh"
      using isOverlayE by blast
    show ?thesis
      using Cons by (simp only: f videoLoop_overlay overlayStep_keeps)
  next
    case False
    have "p \<in> set (fst (ps, c, n @ [f]))" using Cons.prems st by simp
    then show ?thesis using Cons.IH False st by (simp add: videoLoop_other)
  qed
qed

lemma overlayStep_adds:
  assumes "getInputIndex g ref = - 1"
  shows "\<exists>p \<in> set (fst (overlayStep g (Overlay ref x y al sh) ref st)). viaMissing p"
proof -
  obtain ps c n where st: "st = (ps, c, n)" by (cases st) auto
  define c1 where "c1 = (if n \<noteq> [] then syntheticLabel (length ps) else c)"
  define ps1 where "ps1 = (if n \<noteq> [] then ps @ [segment c (join '','' (map serializeVideoFilter n))
                                              (syntheticLabel (length ps))] else ps)"
  define b where "b = serializeVideoFilter (Overlay ref x y al sh)
                      @ ''['' @ syntheticLabel (length ps1) @ '']''"
  have "fst (overlayStep g (Overlay ref x y al sh) ref st)
          = ps1 @ [(''['' @ c1) @ ''][-1:v]'' @ b]"
    using assms
    by (simp add: st overlayStep_def Let_def c1_def ps1_def b_def int_toString_evals
        del: serializeVideoFilter.simps)
  moreover have "b \<noteq> []" by (simp add: b_def)
  ultimately show ?thesis unfolding viaMissing_def by auto
qed

lemma videoLoop_adds:
  assumes "Overlay ref x y al sh \<in> set fs" and "getInputIndex g ref = - 1"
  shows "\<exists>p \<in> set (fst (videoLoop g fs st)). viaMissing p"
  using assms(1)
proof (induction fs arbitrary: st)
  case Nil
  then show ?case by simp
next
  case (Cons f fs)
  obtain ps c n where st: "st = (ps, c, n)" by (cases st) auto
  show ?case
  proof (cases "f = Overlay ref x y al sh")
    case True
    obtain p where "p \<in> set (fst (overlayStep g (Overlay ref x y al sh) ref st))" "viaMissing p"
      using overlayStep_adds [OF assms(2)] by blast
    then show ?thesis
      using videoLoop_keeps by (simp only: True videoLoop_overlay) blast
  next
    case False
    with Cons.prems have mem: "Overlay ref x y al sh \<in> set fs" by simp
    show ?thesis
    proof (cases "isOverlay f")
      case True
      then obtain ref' x' y' al' sh' where f: "f = Overlay ref' x' y' al' sh'"
        using isOverlayE by blast
      show ?thesis using Cons.IH [OF mem] by (simp only: f videoLoop_overlay)
    next
      case False
      then show ?thesis using Cons.IH [OF mem] st by (simp add: videoLoop_other)
    qed
  qed
qed

lemma finishVideo_via:
  assumes "p \<in> set (fst st)" and "viaMissing p"
  shows "\<exists>ps. finishVideo st = (ps, ''v_out'') \<and> (\<exists>q \<in> set ps. readsMissing q)"
proof -
  obtain ps c n where st: "st = (ps, c, n)" by (cases st) auto
  from assms(2) obtain a b where p: "p = a @ ''][-1:v]'' @ b" "b \<noteq> []"
    unfolding viaMissing_def by blast
  have gp: "readsMissing p" unfolding readsMissing_def using p(1) by blast
  from assms(1) st have mem: "p \<in> set ps" by simp
  then have ne: "ps \<noteq> []" by auto
  show ?thesis
  proof (cases "n = []")
    case False
    then have "finishVideo st
        = (ps @ [segment c (join '','' (map serializeVideoFilter n)) ''v_out''], ''v_out'')"
      by (simp add: st finishVideo_def)
    moreover have "p \<in> set (ps @ [segment c (join '','' (map serializeVideoFilter n)) ''v_out''])"
      using mem by simp
    ultimately show ?thesis using gp by blast
  next
    case True
    then have fin: "finishVideo st = (butlast ps @ [replaceFinalLabel (last ps)], ''v_out'')"
      using ne by (simp add: st finishVideo_def)
    show ?thesis
    proof (cases "p = last ps")
      case True
      have "replaceFinalLabel p = (a @ ''][-1:v'') @ CHR '']'' # replaceFinalLabel b"
        using replaceFinalLabel_keep [OF p(2), of "a @ ''][-1:v''"] p(1) by simp
      then have "replaceFinalLabel (last ps) = a @ ''][-1:v]'' @ replaceFinalLabel b"
        using True by simp
      then have "readsMissing (replaceFinalLabel (last ps))"
        unfolding readsMissing_def by blast
      moreover have "replaceFinalLabel (last ps)
                       \<in> set (butlast ps @ [replaceFinalLabel (last ps)])"
        by simp
      ultimately show ?thesis using fin by blast
    next
      case False
      have "ps = butlast ps @ [last ps]" using ne by simp
      then have "set ps = set (butlast ps) \<union> {last ps}"
        by (metis list.simps(15) set_append list.set(1) Un_insert_right sup_bot.right_neutral)
      with mem False have "p \<in> set (butlast ps)" by auto
      then have "p \<in> set (butlast ps @ [replaceFinalLabel (last ps)])" by simp
      then show ?thesis using fin gp by blast
    qed
  qed
qed

lemma compileComplex_video_parts:
  assumes "hasVideoOutput g" and "complexVideo g = (vp, lbl)" and "vp \<noteq> []"
  shows "\<exists>rest. args (compileComplex g)
           = globalArgs g @ inputsArgs g
             @ [''-filter_complex'', join '';'' (vp @ fst (complexAudio g))] @ rest"
proof -
  obtain ap al where ca: "complexAudio g = (ap, al)" by (cases "complexAudio g") auto
  show ?thesis using assms by (simp add: compileComplex_def ca Let_def)
qed


lemma missing_stream_filtered:
  assumes "find (\<lambda>s. \<not> v_disabled s) (videoStreams g) = Some vs"
    and "v_inputRef vs \<notin> getInputIds g" and "v_filters vs \<noteq> []"
  shows "\<exists>expr rest. args (compileComplex g)
           = globalArgs g @ inputsArgs g @ [''-filter_complex'', ''[-1:v]'' @ expr] @ rest"
proof -
  let ?st = "videoLoop g (v_filters vs) ([], ''-1:v'', [])"
  have idx: "getInputIndex g (v_inputRef vs) = - 1"
    using assms(2) by (rule getInputIndex_missing)
  have cv: "complexVideo g = finishVideo ?st"
    using complexVideo_selected [OF assms(1)] idx by (simp add: int_toString_evals)
  have "startsFrom ''-1:v'' ([], ''-1:v'', [])" by (simp add: startsFrom_def)
  then have sf: "startsFrom ''-1:v'' ?st" by (rule startsFrom_videoLoop)
  have "busy ?st" using assms(3) by (rule busy_videoLoop_nonempty)
  with sf obtain ps r where fin: "finishVideo ?st = (ps, ''v_out'')" "ps \<noteq> []"
    "hd ps = ''['' @ ''-1:v'' @ '']'' @ r"
    using finishVideo_first by blast
  have hv: "hasVideoOutput g" using assms(1) by (rule find_hasVideoOutput)
  obtain rest where a: "args (compileComplex g)
      = globalArgs g @ inputsArgs g
        @ [''-filter_complex'', join '';'' (ps @ fst (complexAudio g))] @ rest"
    using compileComplex_video_parts [OF hv _ fin(2)] cv fin(1) by auto
  have "ps @ fst (complexAudio g) \<noteq> []" using fin(2) by simp
  then obtain t where "join '';'' (ps @ fst (complexAudio g))
                         = hd (ps @ fst (complexAudio g)) @ t"
    using join_hd by blast
  then have "join '';'' (ps @ fst (complexAudio g)) = ''[-1:v]'' @ (r @ t)"
    using fin(2,3) by (simp add: hd_append)
  with a show ?thesis by metis
qed

lemma missing_stream_unfiltered:
  assumes "find (\<lambda>s. \<not> v_disabled s) (videoStreams g) = Some vs"
    and "v_inputRef vs \<notin> getInputIds g" and "v_filters vs = []"
  shows "\<exists>rest. args (compileComplex g)
           = globalArgs g @ inputsArgs g
             @ (if fst (complexAudio g) = [] then []
                else [''-filter_complex'', join '';'' (fst (complexAudio g))])
             @ [''-map'', ''-1:v''] @ rest"
proof -
  have idx: "getInputIndex g (v_inputRef vs) = - 1"
    using assms(2) by (rule getInputIndex_missing)
  have cv: "complexVideo g = ([], ''-1:v'')"
    using complexVideo_selected [OF assms(1)] idx assms(3)
    by (simp add: int_toString_evals finishVideo_def)
  have hv: "hasVideoOutput g" using assms(1) by (rule find_hasVideoOutput)
  obtain ap al where ca: "complexAudio g = (ap, al)" by (cases "complexAudio g") auto
  show ?thesis using hv by (simp add: compileComplex_def cv ca Let_def mapArgs_def)
qed

lemma missing_overlay_input:
  assumes "find (\<lambda>s. \<not> v_disabled s) (videoStreams g) = Some vs"
    and "Overlay ref x y al sh \<in> set (v_filters vs)" and "ref \<notin> getInputIds g"
  shows "\<exists>pre post rest. args (compileComplex g)
           = globalArgs g @ inputsArgs g
             @ [''-filter_complex'', pre @ ''][-1:v]'' @ post] @ rest"
proof -
  let ?st = "videoLoop g (v_filters vs)
               ([], int_toString (getInputIndex g (v_inputRef vs)) @ '':v'', [])"
  have idx: "getInputIndex g ref = - 1" using assms(3) by (rule getInputIndex_missing)
  have cv: "complexVideo g = finishVideo ?st" using assms(1) by (rule complexVideo_selected)
  obtain p where "p \<in> set (fst ?st)" "viaMissing p"
    using videoLoop_adds [OF assms(2) idx] by blast
  then obtain ps q where fin: "finishVideo ?st = (ps, ''v_out'')" "q \<in> set ps"
    "readsMissing q"
    using finishVideo_via by blast
  then have ne: "ps \<noteq> []" by auto
  have hv: "hasVideoOutput g" using assms(1) by (rule find_hasVideoOutput)
  obtain rest where a: "args (compileComplex g)
      = globalArgs g @ inputsArgs g
        @ [''-filter_complex'', join '';'' (ps @ fst (complexAudio g))] @ rest"
    using compileComplex_video_parts [OF hv _ ne] cv fin(1) by auto
  from fin(3) obtain a' b' where q: "q = a' @ ''][-1:v]'' @ b'"
    unfolding readsMissing_def by blast
  have "q \<in> set (ps @ fst (complexAudio g))" using fin(2) by simp
  then obtain u v where "join '';'' (ps @ fst (complexAudio g)) = u @ q @ v"
    using join_member by blast
  then have "join '';'' (ps @ fst (complexAudio g)) = (u @ a') @ ''][-1:v]'' @ (b' @ v)"
    using q by simp
  with a show ?thesis by metis
qed

lemma danglingStream_eval:
  "args (compileComplex danglingStreamGraph)
     = [''-y'', ''-i'', ''a.mp4'', ''-i'', ''b.mp4'', ''-map'', ''-1:v'', ''-an'',
        ''output.mp4'']"
  by (simp add: danglingStreamGraph_def graph_eval compile_eval num_eval)

text \<open>
  C9 as stated fails for a selected video stream without filters: there is no filter-graph
  expression at all, and the pad address \<open>-1:v\<close> is the value of the map directive.
\<close>

theorem dangling_stream_counterexample:
  "''missing'' \<notin> getInputIds danglingStreamGraph
   \<and> map v_inputRef (videoStreams danglingStreamGraph) = [''missing'']
   \<and> args (compileComplex danglingStreamGraph)
        = [''-y'', ''-i'', ''a.mp4'', ''-i'', ''b.mp4'', ''-map'', ''-1:v'', ''-an'',
           ''output.mp4'']
   \<and> ''-filter_complex'' \<notin> set (args (compileComplex danglingStreamGraph))"
  by (simp add: danglingStream_eval)
    (simp add: danglingStreamGraph_def graph_eval getInputIds_def)

text \<open>
  C9, amended. \<open>getInputIndex\<close> returns \<open>-1\<close> for an identifier that no input has.
  When the selected video stream of the complex compiler names such an identifier, the
  compiler does not fail: if the stream has filters, the filter-graph expression begins
  with the input pad \<open>[-1:v]\<close>; if it has none, \<open>-1:v\<close> is the value of the video map
  directive. When a filter of the selected stream is an overlay that names such an
  identifier, the expression contains \<open>[-1:v]\<close> as the second input pad of a segment.
\<close>

theorem missing_input_pad_address:
  "(ident \<notin> getInputIds g \<longrightarrow> getInputIndex g ident = - 1)
   \<and> (find (\<lambda>s. \<not> v_disabled s) (videoStreams g) = Some vs
        \<and> v_inputRef vs \<notin> getInputIds g \<and> v_filters vs \<noteq> [] \<longrightarrow>
      (\<exists>expr rest. args (compileComplex g)
         = globalArgs g @ inputsArgs g @ [''-filter_complex'', ''[-1:v]'' @ expr] @ rest))
   \<and> (find (\<lambda>s. \<not> v_disabled s) (videoStreams g) = Some vs
        \<and> v_inputRef vs \<notin> getInputIds g \<and> v_filters vs = [] \<longrightarrow>
      (\<exists>rest. args (compileComplex g)
         = globalArgs g @ inputsArgs g
           @ (if fst (complexAudio g) = [] then []
              else [''-filter_complex'', join '';'' (fst (complexAudio g))])
           @ [''-map'', ''-1:v''] @ rest))
   \<and> (find (\<lambda>s. \<not> v_disabled s) (videoStreams g) = Some vs
        \<and> Overlay ref x y al sh \<in> set (v_filters vs) \<and> ref \<notin> getInputIds g \<longrightarrow>
      (\<exists>pre post rest. args (compileComplex g)
         = globalArgs g @ inputsArgs g
           @ [''-filter_complex'', pre @ ''][-1:v]'' @ post] @ rest))"
  using getInputIndex_missing missing_stream_filtered missing_stream_unfiltered
    missing_overlay_input
  by blast

lemma dangling_facts:
  "''missing'' \<notin> getInputIds danglingFilteredGraph"
  "''gone'' \<notin> getInputIds danglingFilteredGraph"
  "find (\<lambda>s. \<not> v_disabled s) (videoStreams danglingFilteredGraph)
     = Some (videoStreamOf ''missing'' [Fps 30 None, overlayAt10 ''gone''])"
  "v_inputRef (videoStreamOf ''missing'' [Fps 30 None, overlayAt10 ''gone'']) = ''missing''"
  "v_filters (videoStreamOf ''missing'' [Fps 30 None, overlayAt10 ''gone''])
     = [Fps 30 None, Overlay ''gone'' (ENum 10) (ENum 10) False False]"
  "''missing'' \<notin> getInputIds danglingStreamGraph"
  "find (\<lambda>s. \<not> v_disabled s) (videoStreams danglingStreamGraph)
     = Some (videoStreamOf ''missing'' [])"
  "v_inputRef (videoStreamOf ''missing'' []) = ''missing''"
  "v_filters (videoStreamOf ''missing'' []) = []"
  "fst (complexAudio danglingStreamGraph) = []"
  "globalArgs danglingFilteredGraph @ inputsArgs danglingFilteredGraph
     = [''-y'', ''-i'', ''a.mp4'', ''-i'', ''b.mp4'']"
  "globalArgs danglingStreamGraph @ inputsArgs danglingStreamGraph
     = [''-y'', ''-i'', ''a.mp4'', ''-i'', ''b.mp4'']"
  by (simp_all add: danglingFilteredGraph_def danglingStreamGraph_def overlayAt10_def
      graph_eval getInputIds_def complexAudio_def hasAudioOutput_def globalArgs_def
      inputsArgs_def inputArgs_def)

text \<open>
  C9, amended, at a stream on a missing input with an fps filter and an overlay of a missing
  input, and at a stream on a missing input without filters.
\<close>

theorem missing_input_pad_address_witness:
  "getInputIndex danglingFilteredGraph ''missing'' = - 1
   \<and> (\<exists>expr rest. args (compileComplex danglingFilteredGraph)
         = [''-y'', ''-i'', ''a.mp4'', ''-i'', ''b.mp4'', ''-filter_complex'',
            ''[-1:v]'' @ expr] @ rest)
   \<and> (\<exists>pre post rest. args (compileComplex danglingFilteredGraph)
         = [''-y'', ''-i'', ''a.mp4'', ''-i'', ''b.mp4'', ''-filter_complex'',
            pre @ ''][-1:v]'' @ post] @ rest)
   \<and> (\<exists>rest. args (compileComplex danglingStreamGraph)
         = [''-y'', ''-i'', ''a.mp4'', ''-i'', ''b.mp4'', ''-map'', ''-1:v''] @ rest)"
proof -
  note w1 = missing_input_pad_address [of "''missing''" danglingFilteredGraph
      "videoStreamOf ''missing'' [Fps 30 None, overlayAt10 ''gone'']"
      "''gone''" "ENum 10" "ENum 10" False False]
  note w2 = missing_input_pad_address [of "''missing''" danglingStreamGraph
      "videoStreamOf ''missing'' []" "''gone''" "ENum 10" "ENum 10" False False]
  have a: "getInputIndex danglingFilteredGraph ''missing'' = - 1"
    using w1 dangling_facts(1) by blast
  have b: "\<exists>expr rest. args (compileComplex danglingFilteredGraph)
         = globalArgs danglingFilteredGraph @ inputsArgs danglingFilteredGraph
           @ [''-filter_complex'', ''[-1:v]'' @ expr] @ rest"
    using w1 dangling_facts(1,3,4,5) by simp
  have c: "\<exists>pre post rest. args (compileComplex danglingFilteredGraph)
         = globalArgs danglingFilteredGraph @ inputsArgs danglingFilteredGraph
           @ [''-filter_complex'', pre @ ''][-1:v]'' @ post] @ rest"
    using w1 dangling_facts(2,3,5) by simp
  have d: "\<exists>rest. args (compileComplex danglingStreamGraph)
         = globalArgs danglingStreamGraph @ inputsArgs danglingStreamGraph
           @ [''-map'', ''-1:v''] @ rest"
    using w2 dangling_facts(6,7,8,9,10) by simp
  have p1: "\<And>xs. globalArgs danglingFilteredGraph @ inputsArgs danglingFilteredGraph @ xs
               = [''-y'', ''-i'', ''a.mp4'', ''-i'', ''b.mp4''] @ xs"
    using dangling_facts(11) by (metis append.assoc)
  have p2: "\<And>xs. globalArgs danglingStreamGraph @ inputsArgs danglingStreamGraph @ xs
               = [''-y'', ''-i'', ''a.mp4'', ''-i'', ''b.mp4''] @ xs"
    using dangling_facts(12) by (metis append.assoc)
  show ?thesis using a b c d unfolding p1 p2 by simp
qed

end
